theory Spec2Isabelle
  imports Complex_Main
begin

section \<open>MiniChess 4x4: board model\<close>

text \<open>
  The board is a 4x4 numpy array of piece codes (stored as floats with integral values):
  empty 0, pawn 1, rook 5, king 6, positive for player 1 and negative for player 2.
  It is modelled as the list of its rows; the cells are integers.
\<close>

definition N_FILAS :: int where [simp]: "N_FILAS = 4"
definition N_COLS :: int where [simp]: "N_COLS = 4"
definition PEON :: int where [simp]: "PEON = 1"
definition TORRE :: int where [simp]: "TORRE = 5"
definition REY :: int where [simp]: "REY = 6"

type_synonym casilla = "int \<times> int"
type_synonym movimiento = "casilla \<times> casilla"
type_synonym tablero_t = "int list list"

datatype error = IndexError | ValueError

text \<open>\<open>tablero[i, j]\<close> where the source has already checked \<open>0 <= i < N_FILAS\<close> and
  \<open>0 <= j < N_COLS\<close>.\<close>

definition celda :: "tablero_t \<Rightarrow> int \<Rightarrow> int \<Rightarrow> int" where
  "celda b i j = b ! nat i ! nat j"

definition en_tablero :: "casilla \<Rightarrow> bool" where
  "en_tablero c = (0 \<le> fst c \<and> fst c < N_FILAS \<and> 0 \<le> snd c \<and> snd c < N_COLS)"

text \<open>numpy indexing along an axis of length \<open>n\<close>: a negative index counts from the end,
  anything outside \<open>[-n, n)\<close> raises IndexError.\<close>

definition indice :: "int \<Rightarrow> int \<Rightarrow> error + nat" where
  "indice n i =
     (if 0 \<le> i \<and> i < n then Inr (nat i)
      else if - n \<le> i \<and> i < 0 then Inr (nat (i + n))
      else Inl IndexError)"

text \<open>\<open>tablero[pos]\<close> and \<open>tablero[pos] = v\<close> for a coordinate pair that was not checked.\<close>

definition lee :: "tablero_t \<Rightarrow> casilla \<Rightarrow> error + int" where
  "lee b pos =
     (case indice N_FILAS (fst pos) of
        Inl e \<Rightarrow> Inl e
      | Inr i \<Rightarrow>
          (case indice N_COLS (snd pos) of
             Inl e \<Rightarrow> Inl e
           | Inr j \<Rightarrow> Inr (b ! i ! j)))"

definition escribe :: "tablero_t \<Rightarrow> casilla \<Rightarrow> int \<Rightarrow> error + tablero_t" where
  "escribe b pos v =
     (case indice N_FILAS (fst pos) of
        Inl e \<Rightarrow> Inl e
      | Inr i \<Rightarrow>
          (case indice N_COLS (snd pos) of
             Inl e \<Rightarrow> Inl e
           | Inr j \<Rightarrow> Inr (b[i := (b ! i)[j := v]])))"

text \<open>The shape (4, 4) every board of the program has.\<close>

definition forma_ok :: "tablero_t \<Rightarrow> bool" where
  "forma_ok b = (length b = 4 \<and> list_all (\<lambda>fila. length fila = 4) b)"

definition inicializar_tablero :: tablero_t where
  "inicializar_tablero =
     [[TORRE, REY, 0, 0],
      [PEON, 0, 0, 0],
      [0, 0, 0, - PEON],
      [0, 0, - REY, - TORRE]]"

subsection \<open>Serialization\<close>

text \<open>
  \<open>str(tablero.reshape(n_cols * n_filas))\<close>. The reshape flattens the rows in order and
  raises ValueError when the size does not fit. numpy prints a float vector with integral
  entries of small magnitude in positional notation: each entry as its digits followed by
  a point, with a leading minus sign when negative, right-justified to the width of the
  widest entry, the entries separated by one space, between brackets.
\<close>

definition digito :: "nat \<Rightarrow> char" where
  "digito d = ''0123456789'' ! d"

fun str_nat :: "nat \<Rightarrow> string" where
  "str_nat n = (if n < 10 then [digito n] else str_nat (n div 10) @ [digito (n mod 10)])"

declare str_nat.simps [simp del]

definition repr_celda :: "int \<Rightarrow> string" where
  "repr_celda x = (if x < 0 then ''-'' else '''') @ str_nat (nat \<bar>x\<bar>) @ ''.''"

definition ajusta :: "nat \<Rightarrow> string \<Rightarrow> string" where
  "ajusta w s = replicate (w - length s) CHR '' '' @ s"

fun une :: "string list \<Rightarrow> string" where
  "une [] = []"
| "une [s] = s"
| "une (s # t # ts) = s @ '' '' @ une (t # ts)"

definition str_vector :: "int list \<Rightarrow> string" where
  "str_vector xs =
     (let campos = map repr_celda xs;
          w = foldr max (map length campos) 0
      in ''['' @ une (map (ajusta w) campos) @ '']'')"

definition reshape :: "tablero_t \<Rightarrow> int \<Rightarrow> error + int list" where
  "reshape b n = (if int (length (concat b)) = n then Inr (concat b) else Inl ValueError)"

definition serializa_estado :: "tablero_t \<Rightarrow> int \<Rightarrow> int \<Rightarrow> error + string" where
  "serializa_estado b n_filas n_cols =
     (case reshape b (n_cols * n_filas) of
        Inl e \<Rightarrow> Inl e
      | Inr v \<Rightarrow> Inr (str_vector v))"


section \<open>Move generator\<close>

definition movimientos_peon :: "tablero_t \<Rightarrow> casilla \<Rightarrow> int \<Rightarrow> movimiento list" where
  "movimientos_peon b origen jugador =
     (let i = fst origen; j = snd origen;
          direccion = (if jugador = 1 then 1 else - 1);
          nueva_i = i + direccion
      in (if 0 \<le> nueva_i \<and> nueva_i < N_FILAS \<and> celda b nueva_i j = 0
          then [(origen, (nueva_i, j))] else [])
       @ (if 0 \<le> nueva_i \<and> nueva_i < N_FILAS \<and> 0 \<le> j - 1 \<and> j - 1 < N_COLS
             \<and> celda b nueva_i (j - 1) * jugador < 0
          then [(origen, (nueva_i, j - 1))] else [])
       @ (if 0 \<le> nueva_i \<and> nueva_i < N_FILAS \<and> 0 \<le> j + 1 \<and> j + 1 < N_COLS
             \<and> celda b nueva_i (j + 1) * jugador < 0
          then [(origen, (nueva_i, j + 1))] else []))"

text \<open>The rook's four directions \<open>[(-1, 0), (1, 0), (0, -1), (0, 1)]\<close>, in the source's order.\<close>

datatype direccion = Arriba | Abajo | Izquierda | Derecha

fun delta :: "direccion \<Rightarrow> int \<times> int" where
  "delta Arriba = (- 1, 0)"
| "delta Abajo = (1, 0)"
| "delta Izquierda = (0, - 1)"
| "delta Derecha = (0, 1)"

definition direcciones :: "direccion list" where
  "direcciones = [Arriba, Abajo, Izquierda, Derecha]"

text \<open>The \<open>while\<close> loop of \<open>__movimientos_torre\<close> along one direction, from the cell
  \<open>(nueva_i, nueva_j)\<close> on.\<close>

function rayo :: "tablero_t \<Rightarrow> casilla \<Rightarrow> int \<Rightarrow> direccion \<Rightarrow> int \<Rightarrow> int \<Rightarrow> movimiento list" where
  "rayo b origen jugador d nueva_i nueva_j =
     (if 0 \<le> nueva_i \<and> nueva_i < N_FILAS \<and> 0 \<le> nueva_j \<and> nueva_j < N_COLS then
        (if celda b nueva_i nueva_j = 0 then
           (origen, (nueva_i, nueva_j))
             # rayo b origen jugador d (nueva_i + fst (delta d)) (nueva_j + snd (delta d))
         else if celda b nueva_i nueva_j * jugador < 0 then [(origen, (nueva_i, nueva_j))]
         else [])
      else [])"
  by pat_completeness auto
termination
  by (relation "measure (\<lambda>(b, origen, jugador, d, i, j).
        case d of Arriba \<Rightarrow> nat (i + 1) | Abajo \<Rightarrow> nat (N_FILAS - i)
                | Izquierda \<Rightarrow> nat (j + 1) | Derecha \<Rightarrow> nat (N_COLS - j))")
     (auto split: direccion.splits)

declare rayo.simps [simp del]

definition movimientos_torre :: "tablero_t \<Rightarrow> casilla \<Rightarrow> int \<Rightarrow> movimiento list" where
  "movimientos_torre b origen jugador =
     concat (map (\<lambda>d. rayo b origen jugador d
                        (fst origen + fst (delta d)) (snd origen + snd (delta d)))
                 direcciones)"

definition direcciones_rey :: "(int \<times> int) list" where
  "direcciones_rey =
     [(- 1, - 1), (- 1, 0), (- 1, 1), (0, - 1), (0, 1), (1, - 1), (1, 0), (1, 1)]"

definition movimientos_rey :: "tablero_t \<Rightarrow> casilla \<Rightarrow> int \<Rightarrow> movimiento list" where
  "movimientos_rey b origen jugador =
     concat (map (\<lambda>(di, dj).
                    let nueva_i = fst origen + di; nueva_j = snd origen + dj
                    in if 0 \<le> nueva_i \<and> nueva_i < N_FILAS \<and> 0 \<le> nueva_j \<and> nueva_j < N_COLS
                          \<and> (celda b nueva_i nueva_j = 0 \<or> celda b nueva_i nueva_j * jugador < 0)
                       then [(origen, (nueva_i, nueva_j))] else [])
                 direcciones_rey)"

text \<open>The cells in the order of the two nested \<open>for\<close> loops.\<close>

definition casillas :: "casilla list" where
  "casillas = concat (map (\<lambda>i. map (\<lambda>j. (i, j)) [0..N_COLS - 1]) [0..N_FILAS - 1])"

definition calcular_movimientos_validos :: "tablero_t \<Rightarrow> int \<Rightarrow> movimiento list" where
  "calcular_movimientos_validos b jugador =
     concat (map (\<lambda>origen.
                    let pieza = celda b (fst origen) (snd origen)
                    in if (jugador = 1 \<and> pieza > 0) \<or> (jugador = - 1 \<and> pieza < 0) then
                         (let tipo_pieza = \<bar>pieza\<bar>
                          in if tipo_pieza = PEON then movimientos_peon b origen jugador
                             else if tipo_pieza = TORRE then movimientos_torre b origen jugador
                             else if tipo_pieza = REY then movimientos_rey b origen jugador
                             else [])
                       else [])
                 casillas)"

section \<open>Game state machine\<close>

record juego =
  tablero :: tablero_t
  fin :: bool
  estado :: "string option"
  siguiente_jugador :: int
  turnos_sin_captura :: int

definition juego_inicial :: juego where
  "juego_inicial =
     \<lparr>tablero = inicializar_tablero, fin = False, estado = None,
      siguiente_jugador = 1, turnos_sin_captura = 0\<rparr>"

text \<open>The scan for the two kings at the head of \<open>__calcula_ganador\<close>:
  the flags \<open>(rey_j1_existe, rey_j2_existe)\<close>.\<close>

definition busca_reyes :: "tablero_t \<Rightarrow> bool \<times> bool" where
  "busca_reyes b =
     foldl (\<lambda>(rey_j1_existe, rey_j2_existe) c.
              if celda b (fst c) (snd c) = REY then (True, rey_j2_existe)
              else if celda b (fst c) (snd c) = - REY then (rey_j1_existe, True)
              else (rey_j1_existe, rey_j2_existe))
           (False, False) casillas"

text \<open>The result is \<open>Some 1\<close> (player 1 wins), \<open>Some (-1)\<close> (player 2 wins), \<open>Some 0\<close> (draw)
  or \<open>None\<close> (the game goes on); the session comes back with its flag \<open>fin\<close> set.\<close>

definition calcula_ganador :: "juego \<Rightarrow> int option \<times> juego" where
  "calcula_ganador s =
     (let rey_j1_existe = fst (busca_reyes (tablero s));
          rey_j2_existe = snd (busca_reyes (tablero s))
      in if \<not> rey_j1_existe then (Some (- 1), s\<lparr>fin := True\<rparr>)
         else if \<not> rey_j2_existe then (Some 1, s\<lparr>fin := True\<rparr>)
         else
           (let movimientos_j1 = calcular_movimientos_validos (tablero s) 1;
                movimientos_j2 = calcular_movimientos_validos (tablero s) (- 1)
            in if length movimientos_j1 = 0 then (Some (- 1), s\<lparr>fin := True\<rparr>)
               else if length movimientos_j2 = 0 then (Some 1, s\<lparr>fin := True\<rparr>)
               else if turnos_sin_captura s \<ge> 50 then (Some 0, s\<lparr>fin := True\<rparr>)
               else (None, s\<lparr>fin := False\<rparr>)))"

definition actualiza_estado :: "juego \<Rightarrow> movimiento \<Rightarrow> error + juego" where
  "actualiza_estado s movimiento =
     (let origen = fst movimiento; destino = snd movimiento
      in case lee (tablero s) origen of
           Inl e \<Rightarrow> Inl e
         | Inr pieza \<Rightarrow>
        (case lee (tablero s) destino of
           Inl e \<Rightarrow> Inl e
         | Inr pieza_capturada \<Rightarrow>
        (case escribe (tablero s) destino pieza of
           Inl e \<Rightarrow> Inl e
         | Inr t1 \<Rightarrow>
        (case escribe t1 origen 0 of
           Inl e \<Rightarrow> Inl e
         | Inr t2 \<Rightarrow>
        (case serializa_estado t2 N_FILAS N_COLS of
           Inl e \<Rightarrow> Inl e
         | Inr clave \<Rightarrow>
             Inr (s\<lparr>tablero := t2,
                    turnos_sin_captura :=
                      (if pieza_capturada \<noteq> 0 then 0 else turnos_sin_captura s + 1),
                    siguiente_jugador := (if siguiente_jugador s = 1 then - 1 else 1),
                    estado := Some clave\<rparr>))))))"

section \<open>Learning agent\<close>

text \<open>
  A Python float is NaN, minus infinity, plus infinity or a finite double, and a finite
  double is a real number. The comparisons of floats are exact; they are written out
  below as IEEE 754 has them (every comparison with NaN is false). The arithmetic of
  doubles rounds and is not written out: the three operations the agent uses are
  parameters, of which nothing is assumed.
\<close>

datatype flotante = NaN | MenosInf | Finito real | MasInf

record aritmetica =
  suma :: "flotante \<Rightarrow> flotante \<Rightarrow> flotante"
  resta :: "flotante \<Rightarrow> flotante \<Rightarrow> flotante"
  producto :: "flotante \<Rightarrow> flotante \<Rightarrow> flotante"

text \<open>\<open>x > y\<close>, \<open>x == y\<close> and \<open>x <= y\<close> on floats.\<close>

fun mayor :: "flotante \<Rightarrow> flotante \<Rightarrow> bool" where
  "mayor (Finito x) (Finito y) = (x > y)"
| "mayor (Finito x) MenosInf = True"
| "mayor MasInf (Finito y) = True"
| "mayor MasInf MenosInf = True"
| "mayor _ _ = False"

fun igual :: "flotante \<Rightarrow> flotante \<Rightarrow> bool" where
  "igual (Finito x) (Finito y) = (x = y)"
| "igual MenosInf MenosInf = True"
| "igual MasInf MasInf = True"
| "igual _ _ = False"

fun menor_igual :: "flotante \<Rightarrow> flotante \<Rightarrow> bool" where
  "menor_igual (Finito x) (Finito y) = (x \<le> y)"
| "menor_igual MenosInf MenosInf = True"
| "menor_igual MenosInf (Finito y) = True"
| "menor_igual MenosInf MasInf = True"
| "menor_igual (Finito x) MasInf = True"
| "menor_igual MasInf MasInf = True"
| "menor_igual _ _ = False"

text \<open>The doubles that the literals \<open>0.3\<close>, \<open>0.2\<close> and \<open>0.9\<close> denote
  (\<open>float.as_integer_ratio\<close>).\<close>

definition doble_0_3 :: real where
  "doble_0_3 = 5404319552844595 / 18014398509481984"

definition doble_0_2 :: real where
  "doble_0_2 = 3602879701896397 / 18014398509481984"

definition doble_0_9 :: real where
  "doble_0_9 = 8106479329266893 / 9007199254740992"

record jugador_maq =
  estados_juego_actual :: "string list"
  tasa_exploracion :: flotante
  tasa_aprendizaje :: flotante
  descuento_gamma :: flotante
  experiencia_estado_valor :: "string \<rightharpoonup> flotante"

text \<open>The constructor, and the constructor with its default hyperparameters.\<close>

definition nuevo_jugador_maq :: "flotante \<Rightarrow> flotante \<Rightarrow> flotante \<Rightarrow> jugador_maq" where
  "nuevo_jugador_maq tasa_exp tasa_apr gamma =
     \<lparr>estados_juego_actual = [], tasa_exploracion = tasa_exp, tasa_aprendizaje = tasa_apr,
      descuento_gamma = gamma, experiencia_estado_valor = Map.empty\<rparr>"

definition jugador_maq_defecto :: jugador_maq where
  "jugador_maq_defecto =
     nuevo_jugador_maq (Finito doble_0_3) (Finito doble_0_2) (Finito doble_0_9)"

definition guarda_estado :: "jugador_maq \<Rightarrow> string \<Rightarrow> jugador_maq" where
  "guarda_estado j s = j\<lparr>estados_juego_actual := estados_juego_actual j @ [s]\<rparr>"

text \<open>\<open>dict.get(s, 0)\<close>: the default is the integer 0, which the float operations read as
  the double 0.\<close>

definition get0 :: "(string \<rightharpoonup> flotante) \<Rightarrow> string \<Rightarrow> flotante" where
  "get0 V s = (case V s of None \<Rightarrow> Finito 0 | Some v \<Rightarrow> v)"

text \<open>The loop of \<open>retropropaga_recompensa\<close> over the indices still to visit, with the
  running \<open>recompensa_actual\<close>; \<open>ar\<close> is the arithmetic of doubles.\<close>

fun retropropaga_bucle :: "aritmetica \<Rightarrow> jugador_maq \<Rightarrow> flotante \<Rightarrow> nat list \<Rightarrow> jugador_maq" where
  "retropropaga_bucle ar j recompensa_actual [] = j"
| "retropropaga_bucle ar j recompensa_actual (i # resto) =
     (let s = estados_juego_actual j ! i;
          valor_s = get0 (experiencia_estado_valor j) s;
          nuevo_valor =
            suma ar valor_s (producto ar (tasa_aprendizaje j) (resta ar recompensa_actual valor_s))
      in retropropaga_bucle ar
           (j\<lparr>experiencia_estado_valor := (experiencia_estado_valor j)(s \<mapsto> nuevo_valor)\<rparr>)
           (producto ar nuevo_valor (descuento_gamma j)) resto)"

definition retropropaga_recompensa :: "aritmetica \<Rightarrow> jugador_maq \<Rightarrow> flotante \<Rightarrow> jugador_maq" where
  "retropropaga_recompensa ar j recompensa_final =
     retropropaga_bucle ar j recompensa_final (rev [0..<length (estados_juego_actual j)])"

text \<open>The iteration as the specification words it: over the trace from the most recent
  state to the earliest, with a running target.\<close>

fun spec_backpropagate ::
  "aritmetica \<Rightarrow> flotante \<Rightarrow> flotante \<Rightarrow> (string \<rightharpoonup> flotante) \<Rightarrow> flotante \<Rightarrow> string list
     \<Rightarrow> (string \<rightharpoonup> flotante)" where
  "spec_backpropagate ar \<alpha> \<gamma> V target [] = V"
| "spec_backpropagate ar \<alpha> \<gamma> V target (s # earlier) =
     (let current = get0 V s;
          new_value = suma ar current (producto ar \<alpha> (resta ar target current))
      in spec_backpropagate ar \<alpha> \<gamma> (V(s \<mapsto> new_value)) (producto ar new_value \<gamma>) earlier)"

subsection \<open>Action selection\<close>

text \<open>
  The arrays live in a store (a list of arrays, an address is a position in it):
  \<open>tablero.copy()\<close> allocates a new array, and the two assignments of the simulation
  write to the array at the address they are given.
\<close>

type_synonym memoria = "tablero_t list"

definition copia :: "memoria \<Rightarrow> nat \<Rightarrow> nat \<times> memoria" where
  "copia h a = (length h, h @ [h ! a])"

definition simula :: "memoria \<Rightarrow> nat \<Rightarrow> movimiento \<Rightarrow> (error + nat) \<times> memoria" where
  "simula h a movimiento =
     (let origen = fst movimiento; destino = snd movimiento;
          siguiente_tablero = fst (copia h a); h1 = snd (copia h a)
      in case lee (h1 ! siguiente_tablero) origen of
           Inl e \<Rightarrow> (Inl e, h1)
         | Inr pieza \<Rightarrow>
        (case escribe (h1 ! siguiente_tablero) destino pieza of
           Inl e \<Rightarrow> (Inl e, h1)
         | Inr t1 \<Rightarrow>
        (case escribe (h1[siguiente_tablero := t1] ! siguiente_tablero) origen 0 of
           Inl e \<Rightarrow> (Inl e, h1[siguiente_tablero := t1])
         | Inr t2 \<Rightarrow> (Inr siguiente_tablero, h1[siguiente_tablero := t1, siguiente_tablero := t2]))))"

text \<open>The \<open>for\<close> loop of \<open>decide_accion\<close> over the moves still to evaluate;
  \<open>valor_max\<close> starts at \<open>-np.inf\<close>.\<close>

fun evalua ::
  "(string \<rightharpoonup> flotante) \<Rightarrow> memoria \<Rightarrow> nat \<Rightarrow> flotante \<Rightarrow> movimiento list \<Rightarrow> movimiento list
     \<Rightarrow> (error + flotante \<times> movimiento list) \<times> memoria" where
  "evalua V h a valor_max mejores_movimientos [] = (Inr (valor_max, mejores_movimientos), h)"
| "evalua V h a valor_max mejores_movimientos (movimiento # resto) =
     (case simula h a movimiento of
        (Inl e, h') \<Rightarrow> (Inl e, h')
      | (Inr siguiente_tablero, h') \<Rightarrow>
          (case serializa_estado (h' ! siguiente_tablero) N_FILAS N_COLS of
             Inl e \<Rightarrow> (Inl e, h')
           | Inr siguiente_tablero_hash \<Rightarrow>
               (let valor = get0 V siguiente_tablero_hash
                in if mayor valor valor_max then evalua V h' a valor [movimiento] resto
                   else if igual valor valor_max
                     then evalua V h' a valor_max (mejores_movimientos @ [movimiento]) resto
                   else evalua V h' a valor_max mejores_movimientos resto)))"

text \<open>\<open>np.random.choice(n)\<close>: ValueError for \<open>n = 0\<close>, otherwise an index below \<open>n\<close>,
  fixed by the generator's draw \<open>g\<close>; every index below \<open>n\<close> is the outcome of some draw.\<close>

definition np_random_choice :: "nat \<Rightarrow> nat \<Rightarrow> error + nat" where
  "np_random_choice g n = (if n = 0 then Inl ValueError else Inr (g mod n))"

text \<open>\<open>decide_accion\<close>, with the outcome \<open>u\<close> of \<open>np.random.uniform(0, 1)\<close> (a double of the
  interval from 0, included, to 1, excluded), the generator's draw \<open>g\<close> behind the one call
  of \<open>np.random.choice\<close>, the store and the address of the board.\<close>

definition decide_accion ::
  "jugador_maq \<Rightarrow> real \<Rightarrow> nat \<Rightarrow> movimiento list \<Rightarrow> memoria \<Rightarrow> nat \<Rightarrow> int
     \<Rightarrow> (error + movimiento) \<times> memoria" where
  "decide_accion j u g movimientos_validos h a token =
     (if menor_igual (Finito u) (tasa_exploracion j) then
        (case np_random_choice g (length movimientos_validos) of
           Inl e \<Rightarrow> (Inl e, h)
         | Inr k \<Rightarrow> (Inr (movimientos_validos ! k), h))
      else
        (case evalua (experiencia_estado_valor j) h a MenosInf [] movimientos_validos of
           (Inl e, h') \<Rightarrow> (Inl e, h')
         | (Inr (valor_max, mejores_movimientos), h') \<Rightarrow>
             (case np_random_choice g (length mejores_movimientos) of
                Inl e \<Rightarrow> (Inl e, h')
              | Inr k \<Rightarrow> (Inr (mejores_movimientos ! k), h'))))"

section \<open>Notions the properties are stated in, and example inputs\<close>

text \<open>The board holds the piece code \<open>k\<close> in one of its cells.\<close>

definition tiene :: "tablero_t \<Rightarrow> int \<Rightarrow> bool" where
  "tiene b k = list_ex (\<lambda>c. celda b (fst c) (snd c) = k) casillas"

definition sin_reyes :: tablero_t where
  "sin_reyes =
     [[5, 0, 0, 0],
      [1, 0, 0, 0],
      [0, 0, 0, - 1],
      [0, 0, 0, - 5]]"

definition sin_rey_j2 :: tablero_t where
  "sin_rey_j2 =
     [[5, 6, 0, 0],
      [1, 0, 0, 0],
      [0, 0, 0, - 1],
      [0, 0, 0, - 5]]"

text \<open>Both kings walled in by their own pawns: neither player has a move.\<close>

definition bloqueo :: tablero_t where
  "bloqueo =
     [[0, 0, - 1, - 6],
      [0, 0, - 1, - 1],
      [1, 1, 0, 0],
      [6, 1, 0, 0]]"

text \<open>Only player 2 walled in, after 60 turns without a capture, player 2 to move.\<close>

definition bloqueo_j2 :: tablero_t where
  "bloqueo_j2 =
     [[0, 0, - 1, - 6],
      [0, 0, - 1, - 1],
      [0, 0, 0, 0],
      [6, 0, 0, 0]]"

definition juego_bloqueo_j2 :: juego where
  "juego_bloqueo_j2 =
     \<lparr>tablero = bloqueo_j2, fin = False, estado = None,
      siguiente_jugador = - 1, turnos_sin_captura = 60\<rparr>"

text \<open>Whose piece a code is: the test of \<open>__calcular_movimientos_validos\<close> for the own
  pieces, and its mirror image for the opposing ones.\<close>

definition propia :: "int \<Rightarrow> int \<Rightarrow> bool" where
  "propia jugador pieza = ((jugador = 1 \<and> pieza > 0) \<or> (jugador = - 1 \<and> pieza < 0))"

definition rival :: "int \<Rightarrow> int \<Rightarrow> bool" where
  "rival jugador pieza = ((jugador = 1 \<and> pieza < 0) \<or> (jugador = - 1 \<and> pieza > 0))"

text \<open>The cell \<open>k\<close> steps from \<open>c\<close> in the direction \<open>d\<close>, and the piece code in a cell.\<close>

definition paso :: "casilla \<Rightarrow> direccion \<Rightarrow> nat \<Rightarrow> casilla" where
  "paso c d k = (fst c + int k * fst (delta d), snd c + int k * snd (delta d))"

definition pieza_en :: "tablero_t \<Rightarrow> casilla \<Rightarrow> int" where
  "pieza_en b c = celda b (fst c) (snd c)"

text \<open>The cell \<open>k\<close> steps from \<open>c\<close> is on the board and empty or held by the other side,
  and the cells before it, from \<open>c\<close> on, are on the board and empty.\<close>

definition llega :: "tablero_t \<Rightarrow> int \<Rightarrow> direccion \<Rightarrow> casilla \<Rightarrow> nat \<Rightarrow> bool" where
  "llega b jugador d c k =
     (en_tablero (paso c d k)
      \<and> (\<forall>l<k. en_tablero (paso c d l) \<and> pieza_en b (paso c d l) = 0)
      \<and> (pieza_en b (paso c d k) = 0 \<or> pieza_en b (paso c d k) * jugador < 0))"

text \<open>The cells strictly between \<open>c\<close> and the cell \<open>k\<close> steps from it are on the board
  and empty.\<close>

definition camino_libre :: "tablero_t \<Rightarrow> casilla \<Rightarrow> direccion \<Rightarrow> nat \<Rightarrow> bool" where
  "camino_libre b c d k =
     list_all (\<lambda>l. en_tablero (paso c d l) \<and> pieza_en b (paso c d l) = 0) [1..<k]"

text \<open>A rook at (0, 0) with two empty cells and then an opposing pawn to its right, and
  one empty cell and then an own pawn below it.\<close>

definition torre_ej :: tablero_t where
  "torre_ej =
     [[5, 0, 0, - 1],
      [0, 0, 0, 0],
      [1, 0, 0, 0],
      [6, 0, - 6, 0]]"

text \<open>The legal piece codes, and a board of legal piece codes.\<close>

definition pieza_legal :: "int \<Rightarrow> bool" where
  "pieza_legal x = (x \<in> set [0, 1, - 1, 5, - 5, 6, - 6])"

definition tablero_legal :: "tablero_t \<Rightarrow> bool" where
  "tablero_legal b = list_all (list_all pieza_legal) b"

text \<open>Reading the piece codes back from a key: a minus sign marks the next digit as
  negative, a digit of a piece code gives an entry, every other character is skipped.\<close>

fun decodifica :: "bool \<Rightarrow> string \<Rightarrow> int list" where
  "decodifica neg [] = []"
| "decodifica neg (c # cs) =
     (if c = CHR ''-'' then decodifica True cs
      else if c = CHR ''0'' then 0 # decodifica False cs
      else if c = CHR ''1'' then (if neg then - 1 else 1) # decodifica False cs
      else if c = CHR ''5'' then (if neg then - 5 else 5) # decodifica False cs
      else if c = CHR ''6'' then (if neg then - 6 else 6) # decodifica False cs
      else decodifica neg cs)"

text \<open>The initial board late in a game: another side to move, another counter.\<close>

definition juego_tardio :: juego where
  "juego_tardio =
     \<lparr>tablero = inicializar_tablero, fin = False, estado = None,
      siguiente_jugador = - 1, turnos_sin_captura = 37\<rparr>"

text \<open>The board a move leads to, and the value the table gives it (0 when the key is
  not in the table).\<close>

definition sucesor :: "tablero_t \<Rightarrow> movimiento \<Rightarrow> tablero_t" where
  "sucesor b m =
     (let oi = nat (fst (fst m)); oj = nat (snd (fst m));
          di = nat (fst (snd m)); dj = nat (snd (snd m));
          t1 = b[di := (b ! di)[dj := b ! oi ! oj]]
      in t1[oi := (t1 ! oi)[oj := 0]])"

definition valor_de :: "(string \<rightharpoonup> flotante) \<Rightarrow> tablero_t \<Rightarrow> movimiento \<Rightarrow> flotante" where
  "valor_de V b m = get0 V (str_vector (concat (sucesor b m)))"

text \<open>The moves of a list whose two cells are on the board.\<close>

definition movimientos_en_tablero :: "movimiento list \<Rightarrow> bool" where
  "movimientos_en_tablero ms = list_all (\<lambda>m. en_tablero (fst m) \<and> en_tablero (snd m)) ms"

text \<open>The loop of \<open>decide_accion\<close> without the store: the running maximum and the moves
  that reach it, for a value function \<open>f\<close> of the moves.\<close>

fun escoge :: "(movimiento \<Rightarrow> flotante) \<Rightarrow> flotante \<Rightarrow> movimiento list \<Rightarrow> movimiento list
     \<Rightarrow> flotante \<times> movimiento list" where
  "escoge f valor_max mejores [] = (valor_max, mejores)"
| "escoge f valor_max mejores (m # resto) =
     (if mayor (f m) valor_max then escoge f (f m) [m] resto
      else if igual (f m) valor_max then escoge f valor_max (mejores @ [m]) resto
      else escoge f valor_max mejores resto)"

text \<open>The moves of a list with the greatest value: the value is not NaN and the value of
  no move of the list is greater.\<close>

definition maximos :: "(movimiento \<Rightarrow> flotante) \<Rightarrow> movimiento list \<Rightarrow> movimiento list" where
  "maximos f ms = filter (\<lambda>m. f m \<noteq> NaN \<and> list_all (\<lambda>m'. \<not> mayor (f m') (f m)) ms) ms"

text \<open>Example inputs: the legal moves of player 1 at the start and a store that holds the
  initial board at address 0; a greedy agent (exploration rate 0.0) whose table gives the
  value 1.0 to the board after the pawn's advance; and an agent with the default
  hyperparameters whose table, as a policy file can hold it, gives NaN to the four boards
  that follow the initial one.\<close>

definition movs_inicio :: "movimiento list" where
  "movs_inicio = calcular_movimientos_validos inicializar_tablero 1"

definition memoria_inicio :: memoria where
  "memoria_inicio = [inicializar_tablero]"

definition jugador_codicioso :: jugador_maq where
  "jugador_codicioso =
     \<lparr>estados_juego_actual = [], tasa_exploracion = Finito 0,
      tasa_aprendizaje = Finito doble_0_2, descuento_gamma = Finito doble_0_9,
      experiencia_estado_valor =
        [''[ 5.  6.  0.  0.  0.  0.  0.  0.  1.  0.  0. -1.  0.  0. -6. -5.]'' \<mapsto> Finito 1]\<rparr>"

definition jugador_nan :: jugador_maq where
  "jugador_nan =
     jugador_maq_defecto\<lparr>experiencia_estado_valor :=
       [''[ 5.  0.  6.  0.  1.  0.  0.  0.  0.  0.  0. -1.  0.  0. -6. -5.]'' \<mapsto> NaN,
        ''[ 5.  0.  0.  0.  1.  6.  0.  0.  0.  0.  0. -1.  0.  0. -6. -5.]'' \<mapsto> NaN,
        ''[ 5.  0.  0.  0.  1.  0.  6.  0.  0.  0.  0. -1.  0.  0. -6. -5.]'' \<mapsto> NaN,
        ''[ 5.  6.  0.  0.  0.  0.  0.  0.  1.  0.  0. -1.  0.  0. -6. -5.]'' \<mapsto> NaN]\<rparr>"

section \<open>Properties\<close>

lemma serializa_inicial:
  "serializa_estado inicializar_tablero N_FILAS N_COLS =
     Inr ''[ 5.  6.  0.  0.  1.  0.  0.  0.  0.  0.  0. -1.  0.  0. -6. -5.]''"
  by (simp add: serializa_estado_def reshape_def inicializar_tablero_def str_vector_def
      repr_celda_def ajusta_def digito_def Let_def str_nat.simps)

subsection \<open>The cells and the kings\<close>

lemma en_casillas: "c \<in> set casillas \<longleftrightarrow> en_tablero c"
  by (cases c) (auto simp: casillas_def en_tablero_def image_iff)

lemma tiene_iff: "tiene b k \<longleftrightarrow> (\<exists>i j. en_tablero (i, j) \<and> celda b i j = k)"
  by (simp add: tiene_def list_ex_iff Bex_def en_casillas)

lemma busca_fold:
  "foldl (\<lambda>(r1, r2) c.
              if celda b (fst c) (snd c) = REY then (True, r2)
              else if celda b (fst c) (snd c) = - REY then (r1, True)
              else (r1, r2)) (r1, r2) cs
   = (r1 \<or> list_ex (\<lambda>c. celda b (fst c) (snd c) = REY) cs,
      r2 \<or> list_ex (\<lambda>c. celda b (fst c) (snd c) = - REY) cs)"
  by (induction cs arbitrary: r1 r2) auto

lemma busca_reyes_tiene: "busca_reyes b = (tiene b REY, tiene b (- REY))"
  unfolding busca_reyes_def tiene_def by (simp only: busca_fold) simp

subsection \<open>Terminal evaluation\<close>

text \<open>
  C4, as amended. On every board without the king of player 2 (code -6) and with the king
  of player 1, \<open>__calcula_ganador\<close> returns 1 and sets the end flag, whatever else the
  board, the counter and the side to move are. The king of player 1 is looked for first:
  when it is absent too, the result is -1.
\<close>

theorem rey_j2_ausente:
  "\<not> tiene (tablero s) (- REY) \<Longrightarrow>
     calcula_ganador s = (Some (if tiene (tablero s) REY then 1 else - 1), s\<lparr>fin := True\<rparr>)"
  by (simp add: calcula_ganador_def busca_reyes_tiene)

lemma sin_rey_j2_reyes: "\<not> tiene sin_rey_j2 (- REY) \<and> tiene sin_rey_j2 REY"
  by code_simp

theorem rey_j2_ausente_witness:
  "\<not> tiene sin_rey_j2 (- REY) \<and> tiene sin_rey_j2 REY
   \<and> fst (calcula_ganador (juego_inicial\<lparr>tablero := sin_rey_j2\<rparr>)) = Some 1"
  using rey_j2_ausente [of "juego_inicial\<lparr>tablero := sin_rey_j2\<rparr>"] sin_rey_j2_reyes
  by simp

text \<open>C4 as stated fails on a board without any king: the result is -1, not 1.\<close>

theorem rey_j2_ausente_counterexample:
  "\<not> tiene sin_reyes (- REY)
   \<and> fst (calcula_ganador (juego_inicial\<lparr>tablero := sin_reyes\<rparr>)) = Some (- 1)"
  by code_simp

text \<open>
  C1, as amended. On every board with both kings: when player 1 has no legal move the
  result is -1, and otherwise when player 2 has no legal move the result is 1; in both
  cases the end flag is set, whatever the counter of turns without a capture (the checks
  come before the draw check) and whichever side is about to move. So when the side about
  to move has no legal move the other side wins, provided that this side is player 1 or
  that player 1 still has a legal move.
\<close>

theorem sin_movimientos_pierde:
  assumes "tiene (tablero s) REY" and "tiene (tablero s) (- REY)"
  shows "(calcular_movimientos_validos (tablero s) 1 = [] \<or>
          calcular_movimientos_validos (tablero s) (- 1) = [] \<longrightarrow>
            calcula_ganador s =
              (Some (if calcular_movimientos_validos (tablero s) 1 = [] then - 1 else 1),
               s\<lparr>fin := True\<rparr>))
       \<and> ((siguiente_jugador s = 1 \<or> siguiente_jugador s = - 1) \<and>
          calcular_movimientos_validos (tablero s) (siguiente_jugador s) = [] \<and>
          (siguiente_jugador s = 1 \<or> calcular_movimientos_validos (tablero s) 1 \<noteq> []) \<longrightarrow>
            fst (calcula_ganador s) = Some (- siguiente_jugador s))"
  using assms by (auto simp add: calcula_ganador_def busca_reyes_tiene Let_def)

lemma bloqueo_j2_hechos:
  "tiene bloqueo_j2 REY \<and> tiene bloqueo_j2 (- REY)
   \<and> calcular_movimientos_validos bloqueo_j2 (- 1) = []
   \<and> calcular_movimientos_validos bloqueo_j2 1 \<noteq> []"
  by code_simp

theorem sin_movimientos_pierde_witness:
  "tiene (tablero juego_bloqueo_j2) REY \<and> tiene (tablero juego_bloqueo_j2) (- REY)
   \<and> siguiente_jugador juego_bloqueo_j2 = - 1
   \<and> turnos_sin_captura juego_bloqueo_j2 = 60
   \<and> calcular_movimientos_validos (tablero juego_bloqueo_j2) (- 1) = []
   \<and> fst (calcula_ganador juego_bloqueo_j2) = Some 1"
  using sin_movimientos_pierde [of juego_bloqueo_j2] bloqueo_j2_hechos
  by (simp add: juego_bloqueo_j2_def)

text \<open>
  C1 as stated fails where neither side can move and player 2 is about to move: both kings
  are on the board, the side about to move has no legal move, and the result is a win of
  that side (-1), not of the other.
\<close>

theorem sin_movimientos_pierde_counterexample:
  "tiene bloqueo REY \<and> tiene bloqueo (- REY)
   \<and> siguiente_jugador (juego_inicial\<lparr>tablero := bloqueo, siguiente_jugador := - 1\<rparr>) = - 1
   \<and> calcular_movimientos_validos bloqueo (- 1) = []
   \<and> fst (calcula_ganador (juego_inicial\<lparr>tablero := bloqueo, siguiente_jugador := - 1\<rparr>))
       = Some (- 1)"
  by code_simp


subsection \<open>Applying a move\<close>

lemma indice_ok: "0 \<le> i \<Longrightarrow> i < n \<Longrightarrow> indice n i = Inr (nat i)"
  by (simp add: indice_def)

lemma lee_ok: "en_tablero p \<Longrightarrow> lee b p = Inr (celda b (fst p) (snd p))"
  by (simp add: lee_def en_tablero_def indice_ok celda_def)

lemma escribe_ok:
  "en_tablero p \<Longrightarrow>
     escribe b p v = Inr (b[nat (fst p) := (b ! nat (fst p))[nat (snd p) := v]])"
  by (simp add: escribe_def en_tablero_def indice_ok)

lemma forma_ok_update:
  "forma_ok b \<Longrightarrow> forma_ok (b[i := (b ! i)[j := v]])"
  by (cases "i < length b") (auto simp: forma_ok_def list_all_length nth_list_update)

lemma celda_update:
  assumes "forma_ok b" and "en_tablero p" and "en_tablero (i, j)"
  shows "celda (b[nat (fst p) := (b ! nat (fst p))[nat (snd p) := v]]) i j
           = (if (i, j) = p then v else celda b i j)"
proof -
  have "nat (fst p) < length b" and "nat (snd p) < length (b ! nat (fst p))"
    using assms(1,2) by (auto simp: forma_ok_def en_tablero_def list_all_length)
  moreover have "nat i = nat (fst p) \<longleftrightarrow> i = fst p" and "nat j = nat (snd p) \<longleftrightarrow> j = snd p"
    using assms(2,3) by (auto simp: en_tablero_def)
  ultimately show ?thesis
    by (cases p) (auto simp: celda_def nth_list_update)
qed

lemma length_concat_filas:
  "list_all (\<lambda>fila. length fila = n) b \<Longrightarrow> length (concat b) = n * length b"
  by (induction b) auto

lemma serializa_ok:
  "forma_ok b \<Longrightarrow> serializa_estado b N_FILAS N_COLS = Inr (str_vector (concat b))"
  using length_concat_filas [of 4 b]
  by (simp add: serializa_estado_def reshape_def forma_ok_def)

text \<open>
  C5. For every move whose two cells are on the board, \<open>__actualiza_estado\<close> succeeds;
  afterwards the origin is empty, the destination holds the piece that was at the
  origin (whatever stood there before), every other cell is as before (the assignment to
  the origin is the second one, so it also wins when origin and destination are the same
  cell); the counter of turns without a capture is 0 when the destination was not empty and
  one more than before otherwise; the side to move is flipped; and the serialized state is
  the serialization of the resulting board.
\<close>

theorem actualiza_estado_efecto:
  assumes "forma_ok (tablero s)" and "en_tablero origen" and "en_tablero destino"
  shows "\<exists>s'. actualiza_estado s (origen, destino) = Inr s'
     \<and> (\<forall>i j. en_tablero (i, j) \<longrightarrow>
           celda (tablero s') i j =
             (if (i, j) = origen then 0
              else if (i, j) = destino then celda (tablero s) (fst origen) (snd origen)
              else celda (tablero s) i j))
     \<and> (origen \<noteq> destino \<longrightarrow>
           celda (tablero s') (fst destino) (snd destino)
             = celda (tablero s) (fst origen) (snd origen))
     \<and> celda (tablero s') (fst origen) (snd origen) = 0
     \<and> forma_ok (tablero s')
     \<and> turnos_sin_captura s' =
           (if celda (tablero s) (fst destino) (snd destino) \<noteq> 0 then 0
            else turnos_sin_captura s + 1)
     \<and> siguiente_jugador s' = (if siguiente_jugador s = 1 then - 1 else 1)
     \<and> (siguiente_jugador s = 1 \<or> siguiente_jugador s = - 1 \<longrightarrow>
           siguiente_jugador s' = - siguiente_jugador s)
     \<and> serializa_estado (tablero s') N_FILAS N_COLS = Inr (str_vector (concat (tablero s')))
     \<and> estado s' = Some (str_vector (concat (tablero s')))
     \<and> fin s' = fin s"
proof -
  let ?p = "celda (tablero s) (fst origen) (snd origen)"
  let ?t1 = "(tablero s)[nat (fst destino) :=
               (tablero s ! nat (fst destino))[nat (snd destino) := ?p]]"
  let ?t2 = "?t1[nat (fst origen) := (?t1 ! nat (fst origen))[nat (snd origen) := 0]]"
  have f1: "forma_ok ?t1" using assms(1) by (rule forma_ok_update)
  have f2: "forma_ok ?t2" using f1 by (rule forma_ok_update)
  have c2: "celda ?t2 i j =
             (if (i, j) = origen then 0
              else if (i, j) = destino then ?p
              else celda (tablero s) i j)" if "en_tablero (i, j)" for i j
    using that by (simp only: celda_update [OF f1 assms(2) that]
        celda_update [OF assms(1) assms(3) that])
  let ?s' = "s\<lparr>tablero := ?t2,
                turnos_sin_captura :=
                  (if celda (tablero s) (fst destino) (snd destino) \<noteq> 0 then 0
                   else turnos_sin_captura s + 1),
                siguiente_jugador := (if siguiente_jugador s = 1 then - 1 else 1),
                estado := Some (str_vector (concat ?t2))\<rparr>"
  have run: "actualiza_estado s (origen, destino) = Inr ?s'"
    by (simp add: actualiza_estado_def lee_ok escribe_ok assms serializa_ok f2 del: N_FILAS_def N_COLS_def)
  have o: "en_tablero (fst origen, snd origen)" and d: "en_tablero (fst destino, snd destino)"
    using assms by simp_all
  show ?thesis
    apply (rule exI [of _ ?s'])
    apply (simp only: run simp_thms)
    apply (intro conjI)
    subgoal using c2 by simp
    subgoal using c2 [OF d] by (cases destino) auto
    subgoal using c2 [OF o] by simp
    subgoal using f2 by simp
    subgoal by simp
    subgoal by simp
    subgoal by auto
    subgoal using serializa_ok [OF f2] by simp
    subgoal by simp
    subgoal by simp
    done
qed

lemma inicial_hechos:
  "forma_ok (tablero juego_inicial) \<and> en_tablero (0, 1) \<and> en_tablero (1, 1)
   \<and> celda (tablero juego_inicial) 0 1 = 6 \<and> celda (tablero juego_inicial) 1 1 = 0
   \<and> siguiente_jugador juego_inicial = 1 \<and> turnos_sin_captura juego_inicial = 0"
  by code_simp

theorem actualiza_estado_efecto_witness:
  "forma_ok (tablero juego_inicial) \<and> en_tablero (0, 1) \<and> en_tablero (1, 1)
   \<and> (\<exists>s'. actualiza_estado juego_inicial ((0, 1), (1, 1)) = Inr s'
         \<and> celda (tablero s') 1 1 = 6 \<and> celda (tablero s') 0 1 = 0
         \<and> celda (tablero s') 0 0 = celda (tablero juego_inicial) 0 0
         \<and> turnos_sin_captura s' = 1 \<and> siguiente_jugador s' = - 1)"
proof -
  have h: "forma_ok (tablero juego_inicial)" "en_tablero (0, 1)" "en_tablero (1, 1)"
    using inicial_hechos by simp_all
  from actualiza_estado_efecto [OF h] obtain s' where
    r: "actualiza_estado juego_inicial ((0, 1), (1, 1)) = Inr s'"
    and c: "\<forall>i j. en_tablero (i, j) \<longrightarrow>
           celda (tablero s') i j =
             (if (i, j) = (0, 1) then 0
              else if (i, j) = (1, 1) then celda (tablero juego_inicial) (fst (0::int, 1::int)) (snd (0::int, 1::int))
              else celda (tablero juego_inicial) i j)"
    and t: "turnos_sin_captura s' =
           (if celda (tablero juego_inicial) (fst (1::int, 1::int)) (snd (1::int, 1::int)) \<noteq> 0 then 0
            else turnos_sin_captura juego_inicial + 1)"
    and g: "siguiente_jugador s' = (if siguiente_jugador juego_inicial = 1 then - 1 else 1)"
    by (elim exE conjE) (rule that, assumption+)
  have "en_tablero (0, 0)" by (simp add: en_tablero_def)
  with c h inicial_hechos have "celda (tablero s') 1 1 = 6" "celda (tablero s') 0 1 = 0"
    "celda (tablero s') 0 0 = celda (tablero juego_inicial) 0 0"
    by simp_all
  moreover from t g inicial_hechos have "turnos_sin_captura s' = 1" "siguiente_jugador s' = - 1"
    by simp_all
  ultimately show ?thesis using r h by blast
qed

subsection \<open>Backward propagation of the reward\<close>

lemma retropropaga_bucle_campos:
  "estados_juego_actual (retropropaga_bucle ar j r is) = estados_juego_actual j
   \<and> tasa_exploracion (retropropaga_bucle ar j r is) = tasa_exploracion j
   \<and> tasa_aprendizaje (retropropaga_bucle ar j r is) = tasa_aprendizaje j
   \<and> descuento_gamma (retropropaga_bucle ar j r is) = descuento_gamma j"
  by (induction "is" arbitrary: j r) (simp_all add: Let_def)

lemma retropropaga_bucle_spec:
  "experiencia_estado_valor (retropropaga_bucle ar j r is)
     = spec_backpropagate ar (tasa_aprendizaje j) (descuento_gamma j)
         (experiencia_estado_valor j) r (map (\<lambda>i. estados_juego_actual j ! i) is)"
  by (induction "is" arbitrary: j r) (simp_all add: Let_def)

lemma traza_inversa: "map (\<lambda>i. xs ! i) (rev [0..<length xs]) = rev xs"
  by (simp add: rev_map [symmetric] map_nth)

lemma spec_tres:
  assumes "distinct [s1, s2, s3]"
    and "get0 V s1 = Finito 0" and "get0 V s2 = Finito 0" and "get0 V s3 = Finito 0"
  shows "spec_backpropagate ar \<alpha> \<gamma> V r [s3, s2, s1]
           = (let v3 = suma ar (Finito 0) (producto ar \<alpha> (resta ar r (Finito 0)));
                  v2 = suma ar (Finito 0)
                         (producto ar \<alpha> (resta ar (producto ar v3 \<gamma>) (Finito 0)));
                  v1 = suma ar (Finito 0)
                         (producto ar \<alpha> (resta ar (producto ar v2 \<gamma>) (Finito 0)))
              in V(s3 \<mapsto> v3, s2 \<mapsto> v2, s1 \<mapsto> v1))"
  using assms by (simp add: Let_def get0_def)

text \<open>
  C2. Whatever the arithmetic of doubles is, \<open>retropropaga_recompensa\<close> computes the
  iteration of the specification over the trace from the most recent state to the
  earliest: a running target that starts at the final reward; for each state the new
  value \<open>current + \<alpha> * (target - current)\<close>, with the current value looked up with
  default 0, is stored, and the target of the next (earlier) state is the new value times
  \<open>\<gamma>\<close>. The trace and the hyperparameters are left as they are; the defaults of \<open>\<alpha>\<close> and
  \<open>\<gamma>\<close> are the doubles that \<open>0.2\<close> and \<open>0.9\<close> denote. For a trace of three distinct states
  whose values are all zero the stored values are those of this iteration, written out
  with the three operations; so they are with the defaults and the final reward 1.0.
\<close>

theorem retropropaga_recompensa_iteracion:
  "experiencia_estado_valor (retropropaga_recompensa ar j r)
     = spec_backpropagate ar (tasa_aprendizaje j) (descuento_gamma j)
         (experiencia_estado_valor j) r (rev (estados_juego_actual j))
   \<and> estados_juego_actual (retropropaga_recompensa ar j r) = estados_juego_actual j
   \<and> tasa_aprendizaje (retropropaga_recompensa ar j r) = tasa_aprendizaje j
   \<and> descuento_gamma (retropropaga_recompensa ar j r) = descuento_gamma j
   \<and> tasa_aprendizaje jugador_maq_defecto = Finito doble_0_2
   \<and> descuento_gamma jugador_maq_defecto = Finito doble_0_9
   \<and> experiencia_estado_valor
        (retropropaga_recompensa ar
           (j\<lparr>estados_juego_actual := [s1], experiencia_estado_valor := V\<rparr>) r)
      = V(s1 \<mapsto> suma ar (get0 V s1)
                    (producto ar (tasa_aprendizaje j) (resta ar r (get0 V s1))))
   \<and> (distinct [s1, s2, s3]
        \<and> get0 V s1 = Finito 0 \<and> get0 V s2 = Finito 0 \<and> get0 V s3 = Finito 0 \<longrightarrow>
        experiencia_estado_valor
          (retropropaga_recompensa ar
             (j\<lparr>estados_juego_actual := [s1, s2, s3], experiencia_estado_valor := V\<rparr>) r)
        = (let \<alpha> = tasa_aprendizaje j; \<gamma> = descuento_gamma j;
               v3 = suma ar (Finito 0) (producto ar \<alpha> (resta ar r (Finito 0)));
               v2 = suma ar (Finito 0)
                      (producto ar \<alpha> (resta ar (producto ar v3 \<gamma>) (Finito 0)));
               v1 = suma ar (Finito 0)
                      (producto ar \<alpha> (resta ar (producto ar v2 \<gamma>) (Finito 0)))
           in V(s3 \<mapsto> v3, s2 \<mapsto> v2, s1 \<mapsto> v1)))
   \<and> (distinct [s1, s2, s3] \<longrightarrow>
        experiencia_estado_valor
          (retropropaga_recompensa ar
             (jugador_maq_defecto\<lparr>estados_juego_actual := [s1, s2, s3]\<rparr>) (Finito 1))
        = (let \<alpha> = Finito doble_0_2; \<gamma> = Finito doble_0_9;
               v3 = suma ar (Finito 0) (producto ar \<alpha> (resta ar (Finito 1) (Finito 0)));
               v2 = suma ar (Finito 0)
                      (producto ar \<alpha> (resta ar (producto ar v3 \<gamma>) (Finito 0)));
               v1 = suma ar (Finito 0)
                      (producto ar \<alpha> (resta ar (producto ar v2 \<gamma>) (Finito 0)))
           in [s3 \<mapsto> v3, s2 \<mapsto> v2, s1 \<mapsto> v1]))"
proof -
  have gen: "experiencia_estado_valor (retropropaga_recompensa ar j r)
     = spec_backpropagate ar (tasa_aprendizaje j) (descuento_gamma j)
         (experiencia_estado_valor j) r (rev (estados_juego_actual j))" for j r
    unfolding retropropaga_recompensa_def
    by (simp only: retropropaga_bucle_spec traza_inversa)
  have campos: "estados_juego_actual (retropropaga_recompensa ar j r) = estados_juego_actual j"
    "tasa_aprendizaje (retropropaga_recompensa ar j r) = tasa_aprendizaje j"
    "descuento_gamma (retropropaga_recompensa ar j r) = descuento_gamma j"
    unfolding retropropaga_recompensa_def by (simp_all add: retropropaga_bucle_campos)
  have def: "tasa_aprendizaje jugador_maq_defecto = Finito doble_0_2"
    "descuento_gamma jugador_maq_defecto = Finito doble_0_9"
    "experiencia_estado_valor jugador_maq_defecto = Map.empty"
    by (simp_all add: jugador_maq_defecto_def nuevo_jugador_maq_def)
  have tres: "experiencia_estado_valor
          (retropropaga_recompensa ar
             (j\<lparr>estados_juego_actual := [s1, s2, s3], experiencia_estado_valor := V\<rparr>) r)
        = (let \<alpha> = tasa_aprendizaje j; \<gamma> = descuento_gamma j;
               v3 = suma ar (Finito 0) (producto ar \<alpha> (resta ar r (Finito 0)));
               v2 = suma ar (Finito 0)
                      (producto ar \<alpha> (resta ar (producto ar v3 \<gamma>) (Finito 0)));
               v1 = suma ar (Finito 0)
                      (producto ar \<alpha> (resta ar (producto ar v2 \<gamma>) (Finito 0)))
           in V(s3 \<mapsto> v3, s2 \<mapsto> v2, s1 \<mapsto> v1))"
    if "distinct [s1, s2, s3] \<and> get0 V s1 = Finito 0 \<and> get0 V s2 = Finito 0 \<and> get0 V s3 = Finito 0"
    using spec_tres [of s1 s2 s3 V ar "tasa_aprendizaje j" "descuento_gamma j" r] that
    by (simp add: gen Let_def)
  have num: "experiencia_estado_valor
          (retropropaga_recompensa ar
             (jugador_maq_defecto\<lparr>estados_juego_actual := [s1, s2, s3]\<rparr>) (Finito 1))
        = (let \<alpha> = Finito doble_0_2; \<gamma> = Finito doble_0_9;
               v3 = suma ar (Finito 0) (producto ar \<alpha> (resta ar (Finito 1) (Finito 0)));
               v2 = suma ar (Finito 0)
                      (producto ar \<alpha> (resta ar (producto ar v3 \<gamma>) (Finito 0)));
               v1 = suma ar (Finito 0)
                      (producto ar \<alpha> (resta ar (producto ar v2 \<gamma>) (Finito 0)))
           in [s3 \<mapsto> v3, s2 \<mapsto> v2, s1 \<mapsto> v1])"
    if d: "distinct [s1, s2, s3]"
  proof -
    have z: "get0 Map.empty s1 = Finito 0" "get0 Map.empty s2 = Finito 0"
      "get0 Map.empty s3 = Finito 0"
      by (simp_all add: get0_def)
    show ?thesis
      using spec_tres [OF d z, of ar "Finito doble_0_2" "Finito doble_0_9" "Finito 1"]
      by (simp add: gen def Let_def)
  qed
  have uno: "experiencia_estado_valor
        (retropropaga_recompensa ar
           (j\<lparr>estados_juego_actual := [s1], experiencia_estado_valor := V\<rparr>) r)
      = V(s1 \<mapsto> suma ar (get0 V s1)
                    (producto ar (tasa_aprendizaje j) (resta ar r (get0 V s1))))"
    by (simp add: gen Let_def)
  show ?thesis
    using gen campos def(1,2) uno tres num by blast
qed

theorem retropropaga_recompensa_iteracion_witness:
  "distinct [''a'', ''b'', ''c'']
   \<and> (\<forall>ar. experiencia_estado_valor
       (retropropaga_recompensa ar
          (jugador_maq_defecto\<lparr>estados_juego_actual := [''a'', ''b'', ''c'']\<rparr>) (Finito 1))
     = (let \<alpha> = Finito doble_0_2; \<gamma> = Finito doble_0_9;
            v3 = suma ar (Finito 0) (producto ar \<alpha> (resta ar (Finito 1) (Finito 0)));
            v2 = suma ar (Finito 0)
                   (producto ar \<alpha> (resta ar (producto ar v3 \<gamma>) (Finito 0)));
            v1 = suma ar (Finito 0)
                   (producto ar \<alpha> (resta ar (producto ar v2 \<gamma>) (Finito 0)))
        in [''c'' \<mapsto> v3, ''b'' \<mapsto> v2, ''a'' \<mapsto> v1]))
   \<and> (\<forall>ar. experiencia_estado_valor
       (retropropaga_recompensa ar
          (jugador_maq_defecto\<lparr>estados_juego_actual := [''a''],
             experiencia_estado_valor := [''a'' \<mapsto> Finito (1 / 2)]\<rparr>) (Finito 1))
     = [''a'' \<mapsto> suma ar (Finito (1 / 2))
                   (producto ar (Finito doble_0_2) (resta ar (Finito 1) (Finito (1 / 2))))])"
proof -
  have d: "distinct [''a'', ''b'', ''c'']" by simp
  have 1: "experiencia_estado_valor
       (retropropaga_recompensa ar
          (jugador_maq_defecto\<lparr>estados_juego_actual := [''a'', ''b'', ''c'']\<rparr>) (Finito 1))
     = (let \<alpha> = Finito doble_0_2; \<gamma> = Finito doble_0_9;
            v3 = suma ar (Finito 0) (producto ar \<alpha> (resta ar (Finito 1) (Finito 0)));
            v2 = suma ar (Finito 0)
                   (producto ar \<alpha> (resta ar (producto ar v3 \<gamma>) (Finito 0)));
            v1 = suma ar (Finito 0)
                   (producto ar \<alpha> (resta ar (producto ar v2 \<gamma>) (Finito 0)))
        in [''c'' \<mapsto> v3, ''b'' \<mapsto> v2, ''a'' \<mapsto> v1])" for ar
    using retropropaga_recompensa_iteracion
      [of ar jugador_maq_defecto "Finito 1" "[''a'' \<mapsto> Finito (1 / 2)]" "''a''" "''b''" "''c''"] d
    by blast
  have 2: "experiencia_estado_valor
       (retropropaga_recompensa ar
          (jugador_maq_defecto\<lparr>estados_juego_actual := [''a''],
             experiencia_estado_valor := [''a'' \<mapsto> Finito (1 / 2)]\<rparr>) (Finito 1))
     = [''a'' \<mapsto> suma ar (Finito (1 / 2))
                   (producto ar (Finito doble_0_2) (resta ar (Finito 1) (Finito (1 / 2))))]" for ar
  proof -
    have "experiencia_estado_valor
       (retropropaga_recompensa ar
          (jugador_maq_defecto\<lparr>estados_juego_actual := [''a''],
             experiencia_estado_valor := [''a'' \<mapsto> Finito (1 / 2)]\<rparr>) (Finito 1))
     = [''a'' \<mapsto> Finito (1 / 2)](''a'' \<mapsto> suma ar (get0 [''a'' \<mapsto> Finito (1 / 2)] ''a'')
          (producto ar (tasa_aprendizaje jugador_maq_defecto)
             (resta ar (Finito 1) (get0 [''a'' \<mapsto> Finito (1 / 2)] ''a''))))"
      using retropropaga_recompensa_iteracion
        [of ar jugador_maq_defecto "Finito 1" "[''a'' \<mapsto> Finito (1 / 2)]" "''a''" "''b''" "''c''"]
      by blast
    then show ?thesis
      by (simp add: get0_def jugador_maq_defecto_def nuevo_jugador_maq_def)
  qed
  from d 1 2 show ?thesis by blast
qed

subsection \<open>Pawn and rook moves\<close>

lemma rival_producto:
  "jugador = 1 \<or> jugador = - 1 \<Longrightarrow> pieza * jugador < 0 \<longleftrightarrow> rival jugador pieza"
  by (auto simp: rival_def)

lemma propia_producto:
  "jugador = 1 \<or> jugador = - 1 \<Longrightarrow> pieza * jugador > 0 \<longleftrightarrow> propia jugador pieza"
  by (auto simp: propia_def)

text \<open>
  C8. For a pawn position on the board and either side, the generated pawn moves are
  exactly: the cell straight ahead (the next row for player 1, the previous row for
  player 2) when it is on the board and empty, and each of the two cells diagonally ahead
  when it is on the board and holds a piece of the other side. So a move straight ahead
  onto an occupied cell, and a diagonal move onto an empty cell or an own piece, are never
  generated.
\<close>

theorem movimientos_peon_exactos:
  assumes "jugador = 1 \<or> jugador = - 1" and "en_tablero (i, j)"
  shows "set (movimientos_peon b (i, j) jugador) =
           {((i, j), d) | d. en_tablero d \<and>
              ((d = (i + jugador, j) \<and> celda b (fst d) (snd d) = 0) \<or>
               ((d = (i + jugador, j - 1) \<or> d = (i + jugador, j + 1)) \<and>
                 rival jugador (celda b (fst d) (snd d))))}
       \<and> (((i, j), (i + jugador, j)) \<in> set (movimientos_peon b (i, j) jugador) \<longleftrightarrow>
            en_tablero (i + jugador, j) \<and> celda b (i + jugador) j = 0)
       \<and> (((i, j), (i + jugador, j - 1)) \<in> set (movimientos_peon b (i, j) jugador) \<longleftrightarrow>
            en_tablero (i + jugador, j - 1) \<and> rival jugador (celda b (i + jugador) (j - 1)))
       \<and> (((i, j), (i + jugador, j + 1)) \<in> set (movimientos_peon b (i, j) jugador) \<longleftrightarrow>
            en_tablero (i + jugador, j + 1) \<and> rival jugador (celda b (i + jugador) (j + 1)))"
proof -
  have dir: "(if jugador = 1 then 1 else - 1) = jugador"
    using assms(1) by auto
  have lista: "movimientos_peon b (i, j) jugador =
      (if en_tablero (i + jugador, j) \<and> celda b (i + jugador) j = 0
       then [((i, j), (i + jugador, j))] else [])
    @ (if en_tablero (i + jugador, j - 1) \<and> rival jugador (celda b (i + jugador) (j - 1))
       then [((i, j), (i + jugador, j - 1))] else [])
    @ (if en_tablero (i + jugador, j + 1) \<and> rival jugador (celda b (i + jugador) (j + 1))
       then [((i, j), (i + jugador, j + 1))] else [])"
    using assms(2)
    by (simp add: movimientos_peon_def Let_def dir en_tablero_def rival_producto [OF assms(1)])
  show ?thesis
    unfolding lista by (auto simp: en_tablero_def)
qed

theorem movimientos_peon_exactos_witness:
  "en_tablero (1, 0) \<and> celda inicializar_tablero 2 0 = 0
   \<and> ((1, 0), (2, 0)) \<in> set (movimientos_peon inicializar_tablero (1, 0) 1)
   \<and> ((1, 0), (2, 1)) \<notin> set (movimientos_peon inicializar_tablero (1, 0) 1)"
  using movimientos_peon_exactos [of 1 1 0 inicializar_tablero]
  by (simp add: en_tablero_def celda_def inicializar_tablero_def rival_def)

lemma paso_0: "paso c d 0 = c"
  by (simp add: paso_def)

lemma paso_Suc: "paso c d (Suc k) = paso (fst c + fst (delta d), snd c + snd (delta d)) d k"
  by (simp add: paso_def algebra_simps)

lemma todo_menor_Suc: "(\<forall>l<Suc k. P l) \<longleftrightarrow> P 0 \<and> (\<forall>l<k. P (Suc l))"
  by (metis less_Suc_eq_0_disj Suc_less_eq zero_less_Suc)

lemma llega_0:
  "llega b jugador d c 0 \<longleftrightarrow> en_tablero c \<and> (pieza_en b c = 0 \<or> pieza_en b c * jugador < 0)"
  by (simp add: llega_def paso_0)

lemma llega_Suc:
  "llega b jugador d c (Suc k) \<longleftrightarrow>
     en_tablero c \<and> pieza_en b c = 0
     \<and> llega b jugador d (fst c + fst (delta d), snd c + snd (delta d)) k"
  unfolding llega_def todo_menor_Suc paso_Suc paso_0 by blast

lemma existe_nat: "(\<exists>k. P k) \<longleftrightarrow> P 0 \<or> (\<exists>k. P (Suc k))"
  by (metis not0_implies_Suc)

lemma rayo_fuera:
  "\<not> en_tablero (ni, nj) \<Longrightarrow> rayo b origen jugador d ni nj = []"
  by (subst rayo.simps) (auto simp: en_tablero_def)

lemma rayo_vacia:
  "en_tablero (ni, nj) \<Longrightarrow> pieza_en b (ni, nj) = 0 \<Longrightarrow>
     rayo b origen jugador d ni nj =
       (origen, (ni, nj)) # rayo b origen jugador d (ni + fst (delta d)) (nj + snd (delta d))"
  by (subst rayo.simps) (simp add: en_tablero_def pieza_en_def)

lemma rayo_ocupada:
  "en_tablero (ni, nj) \<Longrightarrow> pieza_en b (ni, nj) \<noteq> 0 \<Longrightarrow>
     rayo b origen jugador d ni nj =
       (if pieza_en b (ni, nj) * jugador < 0 then [(origen, (ni, nj))] else [])"
  by (subst rayo.simps) (simp add: en_tablero_def pieza_en_def)

lemma rayo_iff:
  "m \<in> set (rayo b origen jugador d ni nj) \<longleftrightarrow>
     (\<exists>k. m = (origen, paso (ni, nj) d k) \<and> llega b jugador d (ni, nj) k)"
proof (induction b origen jugador d ni nj rule: rayo.induct)
  case (1 b origen jugador d ni nj)
  let ?n = "(ni + fst (delta d), nj + snd (delta d))"
  have partes: "(\<exists>k. m = (origen, paso (ni, nj) d k) \<and> llega b jugador d (ni, nj) k) \<longleftrightarrow>
      (m = (origen, (ni, nj)) \<and> en_tablero (ni, nj)
         \<and> (pieza_en b (ni, nj) = 0 \<or> pieza_en b (ni, nj) * jugador < 0))
      \<or> (en_tablero (ni, nj) \<and> pieza_en b (ni, nj) = 0
         \<and> (\<exists>k. m = (origen, paso ?n d k) \<and> llega b jugador d ?n k))"
    by (subst existe_nat) (simp add: llega_0 llega_Suc paso_0 paso_Suc, blast)
  show ?case
  proof (cases "en_tablero (ni, nj)")
    case False
    then show ?thesis
      unfolding partes by (simp add: rayo_fuera)
  next
    case True
    show ?thesis
    proof (cases "pieza_en b (ni, nj) = 0")
      case vacia: True
      have "0 \<le> ni \<and> ni < N_FILAS \<and> 0 \<le> nj \<and> nj < N_COLS" and "celda b ni nj = 0"
        using True vacia by (simp_all add: en_tablero_def pieza_en_def)
      then have "m \<in> set (rayo b origen jugador d (fst ?n) (snd ?n)) \<longleftrightarrow>
                   (\<exists>k. m = (origen, paso ?n d k) \<and> llega b jugador d ?n k)"
        using "1.IH" by simp
      then show ?thesis
        unfolding partes using True vacia by (simp add: rayo_vacia)
    next
      case ocupada: False
      then show ?thesis
        unfolding partes using True by (simp add: rayo_ocupada)
    qed
  qed
qed

lemma camino_libre_iff:
  "camino_libre b c d k \<longleftrightarrow>
     (\<forall>l. 0 < l \<and> l < k \<longrightarrow> en_tablero (paso c d l) \<and> pieza_en b (paso c d l) = 0)"
  by (auto simp: camino_libre_def list_all_iff)

lemma camino_libre_Suc:
  "camino_libre b c d (Suc k) \<longleftrightarrow>
     (\<forall>l<k. en_tablero (paso c d (Suc l)) \<and> pieza_en b (paso c d (Suc l)) = 0)"
  unfolding camino_libre_iff
  by (metis Suc_less_eq less_Suc_eq_0_disj zero_less_Suc less_numeral_extra(3))

lemma existe_positivo: "(\<exists>k. 0 < k \<and> P k) \<longleftrightarrow> (\<exists>k. P (Suc k))"
  by (metis gr0_implies_Suc zero_less_Suc)

lemma todas_direcciones: "d \<in> set direcciones"
  by (cases d) (simp_all add: direcciones_def)

lemma torre_iff:
  "m \<in> set (movimientos_torre b origen jugador) \<longleftrightarrow>
     (\<exists>d k. 0 < k \<and> m = (origen, paso origen d k) \<and> en_tablero (paso origen d k)
        \<and> camino_libre b origen d k
        \<and> (pieza_en b (paso origen d k) = 0 \<or> pieza_en b (paso origen d k) * jugador < 0))"
proof -
  have "m \<in> set (movimientos_torre b origen jugador) \<longleftrightarrow>
          (\<exists>d. m \<in> set (rayo b origen jugador d
                          (fst origen + fst (delta d)) (snd origen + snd (delta d))))"
    by (auto simp: movimientos_torre_def todas_direcciones)
  also have "\<dots> \<longleftrightarrow> (\<exists>d k. m = (origen, paso origen d (Suc k))
        \<and> en_tablero (paso origen d (Suc k))
        \<and> camino_libre b origen d (Suc k)
        \<and> (pieza_en b (paso origen d (Suc k)) = 0
             \<or> pieza_en b (paso origen d (Suc k)) * jugador < 0))"
    by (simp only: rayo_iff llega_def camino_libre_Suc paso_Suc [symmetric])
  also have "\<dots> \<longleftrightarrow> (\<exists>d k. 0 < k \<and> m = (origen, paso origen d k) \<and> en_tablero (paso origen d k)
        \<and> camino_libre b origen d k
        \<and> (pieza_en b (paso origen d k) = 0 \<or> pieza_en b (paso origen d k) * jugador < 0))"
    by (simp only: existe_positivo)
  finally show ?thesis .
qed

lemma paso_inyectivo:
  "0 < k \<Longrightarrow> 0 < k' \<Longrightarrow> paso c d k = paso c d' k' \<Longrightarrow> d = d' \<and> k = k'"
  by (cases d; cases d') (auto simp: paso_def)

text \<open>
  C7. For every board, side and rook position, a move is generated exactly when its
  destination lies \<open>k > 0\<close> steps from the rook in one of the four directions, on the
  board, with every cell in between on the board and empty, and is empty or holds a piece
  of the other side. So no destination beyond an occupied cell of a ray is generated, and
  no destination holds an own piece.
\<close>

theorem movimientos_torre_sin_saltos:
  assumes "jugador = 1 \<or> jugador = - 1"
  shows "(m \<in> set (movimientos_torre b origen jugador) \<longleftrightarrow>
            (\<exists>d k. 0 < k \<and> m = (origen, paso origen d k) \<and> en_tablero (paso origen d k)
               \<and> camino_libre b origen d k
               \<and> (pieza_en b (paso origen d k) = 0
                    \<or> rival jugador (pieza_en b (paso origen d k)))))
       \<and> (0 < l \<and> l < k \<and> en_tablero (paso origen d l) \<and> pieza_en b (paso origen d l) \<noteq> 0 \<longrightarrow>
            (origen, paso origen d k) \<notin> set (movimientos_torre b origen jugador))
       \<and> (propia jugador (pieza_en b c) \<longrightarrow>
            (origen, c) \<notin> set (movimientos_torre b origen jugador))"
proof (intro conjI impI)
  show "m \<in> set (movimientos_torre b origen jugador) \<longleftrightarrow>
            (\<exists>d k. 0 < k \<and> m = (origen, paso origen d k) \<and> en_tablero (paso origen d k)
               \<and> camino_libre b origen d k
               \<and> (pieza_en b (paso origen d k) = 0
                    \<or> rival jugador (pieza_en b (paso origen d k))))"
    by (simp only: torre_iff rival_producto [OF assms])
next
  assume h: "0 < l \<and> l < k \<and> en_tablero (paso origen d l) \<and> pieza_en b (paso origen d l) \<noteq> 0"
  show "(origen, paso origen d k) \<notin> set (movimientos_torre b origen jugador)"
  proof
    assume "(origen, paso origen d k) \<in> set (movimientos_torre b origen jugador)"
    then obtain d' k' where k': "0 < k'" and eq: "paso origen d k = paso origen d' k'"
      and libre: "camino_libre b origen d' k'"
      unfolding torre_iff by blast
    from h k' eq have "d = d'" and "k = k'"
      using paso_inyectivo [of k k' origen d d'] by auto
    with libre h have "pieza_en b (paso origen d l) = 0"
      unfolding camino_libre_iff by blast
    with h show False by simp
  qed
next
  assume p: "propia jugador (pieza_en b c)"
  show "(origen, c) \<notin> set (movimientos_torre b origen jugador)"
  proof
    assume "(origen, c) \<in> set (movimientos_torre b origen jugador)"
    then have "pieza_en b c = 0 \<or> pieza_en b c * jugador < 0"
      unfolding torre_iff by auto
    then have "pieza_en b c = 0 \<or> rival jugador (pieza_en b c)"
      by (simp only: rival_producto [OF assms])
    with p show False
      by (auto simp: propia_def rival_def)
  qed
qed

lemma torre_ej_hechos:
  shows "paso (0, 0) Derecha 3 = (0, 3)" and "en_tablero (0, 3)"
    and "camino_libre torre_ej (0, 0) Derecha 3"
    and "rival 1 (pieza_en torre_ej (0, 3))"
    and "paso (0, 0) Abajo 2 = (2, 0)" and "en_tablero (2, 0)"
    and "pieza_en torre_ej (2, 0) \<noteq> 0"
    and "paso (0, 0) Abajo 3 = (3, 0)"
    and "propia 1 (pieza_en torre_ej (2, 0))"
  by code_simp+

theorem movimientos_torre_sin_saltos_witness:
  "((0, 0), (0, 3)) \<in> set (movimientos_torre torre_ej (0, 0) 1)
   \<and> pieza_en torre_ej (2, 0) \<noteq> 0
   \<and> ((0, 0), (3, 0)) \<notin> set (movimientos_torre torre_ej (0, 0) 1)
   \<and> ((0, 0), (2, 0)) \<notin> set (movimientos_torre torre_ej (0, 0) 1)"
proof -
  have j: "(1::int) = 1 \<or> (1::int) = - 1" by simp
  note t = movimientos_torre_sin_saltos [OF j, of "((0, 0), (0, 3))" torre_ej "(0, 0)" 2 3 Abajo "(2, 0)"]
  have "\<exists>d k. 0 < k \<and> ((0::int, 0::int), (0::int, 3::int)) = ((0, 0), paso (0, 0) d k)
           \<and> en_tablero (paso (0, 0) d k) \<and> camino_libre torre_ej (0, 0) d k
           \<and> (pieza_en torre_ej (paso (0, 0) d k) = 0
                \<or> rival 1 (pieza_en torre_ej (paso (0, 0) d k)))"
    by (intro exI [of _ Derecha] exI [of _ 3]) (simp add: torre_ej_hechos)
  with t have 1: "((0, 0), (0, 3)) \<in> set (movimientos_torre torre_ej (0, 0) 1)"
    by blast
  from t have 2: "((0, 0), (3, 0)) \<notin> set (movimientos_torre torre_ej (0, 0) 1)"
    by (simp add: torre_ej_hechos)
  from t have 3: "((0, 0), (2, 0)) \<notin> set (movimientos_torre torre_ej (0, 0) 1)"
    by (simp add: torre_ej_hechos)
  from 1 2 3 torre_ej_hechos(7) show ?thesis by blast
qed

subsection \<open>Serialization\<close>

lemma decodifica_espacios:
  "decodifica neg (replicate n CHR '' '' @ resto) = decodifica neg resto"
  by (induction n) simp_all

lemma repr_legales:
  shows "repr_celda 0 = ''0.''" and "repr_celda 1 = ''1.''" and "repr_celda (- 1) = ''-1.''"
    and "repr_celda 5 = ''5.''" and "repr_celda (- 5) = ''-5.''"
    and "repr_celda 6 = ''6.''" and "repr_celda (- 6) = ''-6.''"
  by (simp_all add: repr_celda_def digito_def str_nat.simps)

lemma decodifica_repr:
  "pieza_legal x \<Longrightarrow> decodifica False (repr_celda x @ resto) = x # decodifica False resto"
  unfolding pieza_legal_def
  by (auto simp: repr_legales)

lemma decodifica_campo:
  "pieza_legal x \<Longrightarrow>
     decodifica False (ajusta w (repr_celda x) @ resto) = x # decodifica False resto"
  by (simp add: ajusta_def decodifica_espacios decodifica_repr)

lemma decodifica_une:
  "list_all pieza_legal xs \<Longrightarrow>
     decodifica False (une (map (\<lambda>x. ajusta w (repr_celda x)) xs) @ resto)
       = xs @ decodifica False resto"
proof (induction xs)
  case Nil
  then show ?case by simp
next
  case (Cons x xs)
  show ?case
  proof (cases xs)
    case Nil
    with Cons.prems show ?thesis by (simp add: decodifica_campo)
  next
    case (Cons y ys)
    with Cons.prems Cons.IH show ?thesis
      by (simp add: decodifica_campo)
  qed
qed

lemma decodifica_str_vector:
  "list_all pieza_legal xs \<Longrightarrow> decodifica False (str_vector xs) = xs"
  using decodifica_une [of xs _ "'']''"]
  by (simp add: str_vector_def Let_def comp_def)

lemma str_vector_inyectiva:
  "list_all pieza_legal xs \<Longrightarrow> list_all pieza_legal ys \<Longrightarrow>
     str_vector xs = str_vector ys \<Longrightarrow> xs = ys"
  by (metis decodifica_str_vector)

lemma concat_legal: "tablero_legal b \<Longrightarrow> list_all pieza_legal (concat b)"
  by (induction b) (simp_all add: tablero_legal_def)

lemma concat_filas_inyectiva:
  assumes "forma_ok b1" and "forma_ok b2" and "concat b1 = concat b2"
  shows "b1 = b2"
proof -
  have "length b1 = length b2"
    using assms(1,2) by (simp add: forma_ok_def)
  moreover have "\<forall>(x, y) \<in> set (zip b1 b2). length x = length y"
  proof (clarify)
    fix x y assume "(x, y) \<in> set (zip b1 b2)"
    then have "x \<in> set b1" and "y \<in> set b2"
      by (auto dest: set_zip_leftD set_zip_rightD)
    with assms(1,2) show "length x = length y"
      by (simp add: forma_ok_def list_all_iff)
  qed
  ultimately show ?thesis
    using assms(3) by (simp add: concat_eq_concat_iff)
qed

text \<open>
  C6. The key is a function of the board alone: on boards of the shape (4, 4) with legal
  piece codes, two boards have the same key exactly when they are the same board (the key
  never fails there, and it is the printed form of the cells in row-major order); and the
  key a move leaves in the session is the same for two sessions with the same board,
  whatever their counters, sides to move and flags.
\<close>

theorem serializa_estado_inyectiva:
  assumes "forma_ok b1" and "tablero_legal b1" and "forma_ok b2" and "tablero_legal b2"
  shows "(serializa_estado b1 N_FILAS N_COLS = serializa_estado b2 N_FILAS N_COLS \<longleftrightarrow> b1 = b2)
       \<and> serializa_estado b1 N_FILAS N_COLS = Inr (str_vector (concat b1))
       \<and> (tablero s1 = tablero s2 \<longrightarrow>
            map_sum id estado (actualiza_estado s1 m) = map_sum id estado (actualiza_estado s2 m))"
proof (intro conjI impI)
  show "serializa_estado b1 N_FILAS N_COLS = serializa_estado b2 N_FILAS N_COLS \<longleftrightarrow> b1 = b2"
  proof
    assume "serializa_estado b1 N_FILAS N_COLS = serializa_estado b2 N_FILAS N_COLS"
    then have "str_vector (concat b1) = str_vector (concat b2)"
      by (simp only: serializa_ok [OF assms(1)] serializa_ok [OF assms(3)] sum.inject)
    then have "concat b1 = concat b2"
      using concat_legal [OF assms(2)] concat_legal [OF assms(4)]
      by (rule_tac str_vector_inyectiva)
    with assms(1,3) show "b1 = b2"
      by (rule concat_filas_inyectiva)
  next
    assume "b1 = b2"
    then show "serializa_estado b1 N_FILAS N_COLS = serializa_estado b2 N_FILAS N_COLS"
      by simp
  qed
next
  show "serializa_estado b1 N_FILAS N_COLS = Inr (str_vector (concat b1))"
    using assms(1) by (rule serializa_ok)
next
  assume "tablero s1 = tablero s2"
  then show "map_sum id estado (actualiza_estado s1 m) = map_sum id estado (actualiza_estado s2 m)"
    by (simp add: actualiza_estado_def Let_def split: sum.splits)
qed

lemma tableros_hechos:
  shows "forma_ok inicializar_tablero" and "tablero_legal inicializar_tablero"
    and "forma_ok torre_ej" and "tablero_legal torre_ej"
    and "inicializar_tablero \<noteq> torre_ej"
    and "tablero juego_inicial = tablero juego_tardio"
  by code_simp+

theorem serializa_estado_inyectiva_witness:
  "forma_ok inicializar_tablero \<and> tablero_legal inicializar_tablero
   \<and> forma_ok torre_ej \<and> tablero_legal torre_ej
   \<and> serializa_estado inicializar_tablero N_FILAS N_COLS \<noteq> serializa_estado torre_ej N_FILAS N_COLS
   \<and> turnos_sin_captura juego_inicial \<noteq> turnos_sin_captura juego_tardio
   \<and> map_sum id estado (actualiza_estado juego_inicial ((0, 1), (1, 1)))
       = map_sum id estado (actualiza_estado juego_tardio ((0, 1), (1, 1)))"
proof -
  note t = serializa_estado_inyectiva [OF tableros_hechos(1-4),
      of juego_inicial juego_tardio "((0, 1), (1, 1))"]
  from t have "serializa_estado inicializar_tablero N_FILAS N_COLS
                 = serializa_estado torre_ej N_FILAS N_COLS \<longleftrightarrow> inicializar_tablero = torre_ej"
    by (rule conjunct1)
  with tableros_hechos(5)
  have 1: "serializa_estado inicializar_tablero N_FILAS N_COLS
             \<noteq> serializa_estado torre_ej N_FILAS N_COLS"
    by simp
  from t tableros_hechos(6)
  have 2: "map_sum id estado (actualiza_estado juego_inicial ((0, 1), (1, 1)))
       = map_sum id estado (actualiza_estado juego_tardio ((0, 1), (1, 1)))"
    by blast
  have 3: "turnos_sin_captura juego_inicial \<noteq> turnos_sin_captura juego_tardio"
    by (simp add: juego_inicial_def juego_tardio_def)
  from 1 2 3 tableros_hechos(1-4) show ?thesis by blast
qed

subsection \<open>Action selection of the learning agent\<close>

lemma igual_iff: "igual x y \<longleftrightarrow> x = y \<and> x \<noteq> NaN"
  by (cases x; cases y) simp_all

lemma mayor_no_nan: "mayor x y \<Longrightarrow> x \<noteq> NaN \<and> y \<noteq> NaN"
  by (cases x; cases y) simp_all

lemma mayor_irreflexiva: "\<not> mayor x x"
  by (cases x) simp_all

lemma mayor_transitiva: "mayor x y \<Longrightarrow> mayor y z \<Longrightarrow> mayor x z"
  by (cases x; cases y; cases z) simp_all

lemma mayor_total: "x \<noteq> NaN \<Longrightarrow> y \<noteq> NaN \<Longrightarrow> mayor x y \<or> x = y \<or> mayor y x"
  by (cases x; cases y) auto

lemma nada_menor_que_menos_inf: "\<not> mayor MenosInf y"
  by (cases y) simp_all

lemma simula_extiende: "\<exists>nuevos. snd (simula h a m) = h @ nuevos"
  by (auto simp: simula_def copia_def Let_def list_update_append split: sum.splits)

lemma evalua_extiende: "\<exists>nuevos. snd (evalua V h a vmax mejores ms) = h @ nuevos"
proof (induction ms arbitrary: h vmax mejores)
  case Nil
  then show ?case by simp
next
  case (Cons m ms)
  obtain r h' where s: "simula h a m = (r, h')" by (cases "simula h a m")
  with simula_extiende [of h a m] obtain n1 where h': "h' = h @ n1" by auto
  have paso: "\<exists>nuevos. snd (evalua V h' a vm mj ms) = h @ nuevos" for vm mj
    using Cons.IH [of h' vm mj] h' by auto
  show ?case
    using s h' paso by (auto simp: Let_def split: sum.splits)
qed

text \<open>
  C9. Whatever the agent, the draws, the list of moves, the store, the address of the
  board and the token are, \<open>decide_accion\<close> only adds arrays to the store: every array
  that was there, the board passed to it among them, is unchanged afterwards (also when
  the call raises). The successor boards are written at the fresh addresses of the copies.
\<close>

theorem decide_accion_no_muta:
  "(\<exists>nuevos. snd (decide_accion j u g movimientos_validos h a token) = h @ nuevos)
   \<and> (a < length h \<longrightarrow> snd (decide_accion j u g movimientos_validos h a token) ! a = h ! a)
   \<and> (\<forall>a' < length h. snd (decide_accion j u g movimientos_validos h a token) ! a' = h ! a')"
proof -
  have ext: "\<exists>nuevos. snd (decide_accion j u g movimientos_validos h a token) = h @ nuevos"
  proof (cases "menor_igual (Finito u) (tasa_exploracion j)")
    case True
    then show ?thesis
      by (simp add: decide_accion_def split: sum.splits)
  next
    case False
    obtain r h' where e: "evalua (experiencia_estado_valor j) h a MenosInf [] movimientos_validos = (r, h')"
      by (cases "evalua (experiencia_estado_valor j) h a MenosInf [] movimientos_validos")
    with evalua_extiende [of "experiencia_estado_valor j" h a MenosInf "[]" movimientos_validos]
    have "\<exists>nuevos. h' = h @ nuevos" by simp
    with False e show ?thesis
      by (auto simp: decide_accion_def split: sum.splits prod.splits)
  qed
  then show ?thesis
    by (auto simp: nth_append)
qed

lemma simula_ok:
  assumes "a < length h" and "en_tablero (fst m)" and "en_tablero (snd m)"
  shows "simula h a m = (Inr (length h), h @ [sucesor (h ! a) m])"
  using assms
  by (simp add: simula_def copia_def Let_def lee_ok escribe_ok celda_def sucesor_def
      nth_append list_update_append)

lemma forma_ok_sucesor: "forma_ok b \<Longrightarrow> forma_ok (sucesor b m)"
  by (simp add: sucesor_def Let_def forma_ok_update)

lemma evalua_ok:
  assumes "a < length h" and "forma_ok (h ! a)" and "movimientos_en_tablero ms"
  shows "evalua V h a vmax mejores ms =
           (Inr (escoge (valor_de V (h ! a)) vmax mejores ms), h @ map (sucesor (h ! a)) ms)"
  using assms
proof (induction ms arbitrary: h vmax mejores)
  case Nil
  then show ?case by simp
next
  case (Cons m ms)
  let ?h' = "h @ [sucesor (h ! a) m]"
  have m: "en_tablero (fst m)" "en_tablero (snd m)" and ms: "movimientos_en_tablero ms"
    using Cons.prems(3) by (simp_all add: movimientos_en_tablero_def)
  have s: "simula h a m = (Inr (length h), ?h')"
    using Cons.prems(1) m by (rule simula_ok)
  have k: "serializa_estado (sucesor (h ! a) m) N_FILAS N_COLS
             = Inr (str_vector (concat (sucesor (h ! a) m)))"
    using Cons.prems(2) by (intro serializa_ok forma_ok_sucesor)
  have a': "a < length ?h'" and b': "?h' ! a = h ! a"
    using Cons.prems(1) by (simp_all add: nth_append)
  have f': "forma_ok (?h' ! a)" using b' Cons.prems(2) by simp
  have ih: "evalua V ?h' a vm mj ms =
           (Inr (escoge (valor_de V (h ! a)) vm mj ms), h @ map (sucesor (h ! a)) (m # ms))" for vm mj
    using Cons.IH [OF a' f' ms, of vm mj] b' by simp
  have v: "get0 V (str_vector (concat (sucesor (h ! a) m))) = valor_de V (h ! a) m"
    by (simp add: valor_de_def)
  show ?case
    by (simp add: s k ih v Let_def del: N_FILAS_def N_COLS_def)
qed

lemma escoge_invariante:
  assumes "vmax \<noteq> NaN" and "\<forall>p \<in> set ps. \<not> mayor (f p) vmax"
    and "vmax = MenosInf \<or> vmax \<in> f ` set ps"
  shows "\<exists>v. escoge f vmax (filter (\<lambda>p. f p = vmax) ps) ms
               = (v, filter (\<lambda>p. f p = v) (ps @ ms))
            \<and> v \<noteq> NaN \<and> (\<forall>p \<in> set (ps @ ms). \<not> mayor (f p) v)
            \<and> (v = MenosInf \<or> v \<in> f ` set (ps @ ms))"
  using assms
proof (induction ms arbitrary: ps vmax)
  case Nil
  then show ?case by simp
next
  case (Cons m ms)
  show ?case
  proof (cases "mayor (f m) vmax")
    case True
    have nn: "f m \<noteq> NaN" using True mayor_no_nan by blast
    have bound: "\<forall>p \<in> set (ps @ [m]). \<not> mayor (f p) (f m)"
    proof
      fix p assume "p \<in> set (ps @ [m])"
      then consider "p \<in> set ps" | "p = m" by auto
      then show "\<not> mayor (f p) (f m)"
      proof cases
        case 1
        with Cons.prems(2) have "\<not> mayor (f p) vmax" by blast
        with True show ?thesis using mayor_transitiva by blast
      next
        case 2
        then show ?thesis by (simp add: mayor_irreflexiva)
      qed
    qed
    have "\<And>p. p \<in> set ps \<Longrightarrow> f p \<noteq> f m"
      using Cons.prems(2) True by metis
    then have fil: "filter (\<lambda>p. f p = f m) (ps @ [m]) = [m]"
      by (simp add: filter_empty_conv)
    have im: "f m = MenosInf \<or> f m \<in> f ` set (ps @ [m])" by simp
    have junta: "(ps @ [m]) @ ms = ps @ m # ms" by simp
    from Cons.IH [OF nn bound im] obtain v where
      1: "escoge f (f m) (filter (\<lambda>p. f p = f m) (ps @ [m])) ms
            = (v, filter (\<lambda>p. f p = v) ((ps @ [m]) @ ms))"
      and 2: "v \<noteq> NaN \<and> (\<forall>p \<in> set ((ps @ [m]) @ ms). \<not> mayor (f p) v)
            \<and> (v = MenosInf \<or> v \<in> f ` set ((ps @ [m]) @ ms))"
      by blast
    have "escoge f vmax (filter (\<lambda>p. f p = vmax) ps) (m # ms) = escoge f (f m) [m] ms"
      using True by simp
    with 1 fil have "escoge f vmax (filter (\<lambda>p. f p = vmax) ps) (m # ms)
            = (v, filter (\<lambda>p. f p = v) ((ps @ [m]) @ ms))"
      by simp
    with 2 show ?thesis
      unfolding junta by blast
  next
    case False
    have bound: "\<forall>p \<in> set (ps @ [m]). \<not> mayor (f p) vmax"
      using Cons.prems(2) False by simp
    have im: "vmax = MenosInf \<or> vmax \<in> f ` set (ps @ [m])"
      using Cons.prems(3) by auto
    have fil: "filter (\<lambda>p. f p = vmax) (ps @ [m])
                 = (if igual (f m) vmax then filter (\<lambda>p. f p = vmax) ps @ [m]
                    else filter (\<lambda>p. f p = vmax) ps)"
      using Cons.prems(1) by (auto simp: igual_iff)
    have junta: "(ps @ [m]) @ ms = ps @ m # ms" by simp
    from Cons.IH [OF Cons.prems(1) bound im] obtain v where
      1: "escoge f vmax (filter (\<lambda>p. f p = vmax) (ps @ [m])) ms
            = (v, filter (\<lambda>p. f p = v) ((ps @ [m]) @ ms))"
      and 2: "v \<noteq> NaN \<and> (\<forall>p \<in> set ((ps @ [m]) @ ms). \<not> mayor (f p) v)
            \<and> (v = MenosInf \<or> v \<in> f ` set ((ps @ [m]) @ ms))"
      by blast
    have "escoge f vmax (filter (\<lambda>p. f p = vmax) ps) (m # ms)
            = escoge f vmax (filter (\<lambda>p. f p = vmax) (ps @ [m])) ms"
      using False Cons.prems(1) by (auto simp: igual_iff)
    with 1 have "escoge f vmax (filter (\<lambda>p. f p = vmax) ps) (m # ms)
            = (v, filter (\<lambda>p. f p = v) ((ps @ [m]) @ ms))"
      by simp
    with 2 show ?thesis
      unfolding junta by blast
  qed
qed

lemma escoge_maximos: "snd (escoge f MenosInf [] ms) = maximos f ms"
proof -
  from escoge_invariante [of MenosInf "[]" f ms]
  obtain v where e: "escoge f MenosInf [] ms = (v, filter (\<lambda>p. f p = v) ms)"
    and nn: "v \<noteq> NaN" and bound: "\<forall>p \<in> set ms. \<not> mayor (f p) v"
    and im: "v = MenosInf \<or> v \<in> f ` set ms"
    by auto
  have "f p = v \<longleftrightarrow> f p \<noteq> NaN \<and> (\<forall>p' \<in> set ms. \<not> mayor (f p') (f p))"
    if p: "p \<in> set ms" for p
  proof
    assume "f p = v"
    with nn bound show "f p \<noteq> NaN \<and> (\<forall>p' \<in> set ms. \<not> mayor (f p') (f p))" by simp
  next
    assume h: "f p \<noteq> NaN \<and> (\<forall>p' \<in> set ms. \<not> mayor (f p') (f p))"
    have "\<not> mayor (f p) v" using bound p by blast
    moreover have "\<not> mayor v (f p)"
      using im h nada_menor_que_menos_inf by auto
    ultimately show "f p = v"
      using mayor_total [of "f p" v] h nn by blast
  qed
  then have "filter (\<lambda>p. f p = v) ms = maximos f ms"
    unfolding maximos_def list_all_iff by (intro filter_cong) auto
  with e show ?thesis by simp
qed

lemma en_maximos:
  "m \<in> set (maximos f ms) \<longleftrightarrow>
     m \<in> set ms \<and> f m \<noteq> NaN \<and> (\<forall>m' \<in> set ms. \<not> mayor (f m') (f m))"
  by (auto simp: maximos_def list_all_iff)

lemma maximos_vacio: "maximos f ms = [] \<longleftrightarrow> (\<forall>m \<in> set ms. f m = NaN)"
proof
  assume "\<forall>m \<in> set ms. f m = NaN"
  then show "maximos f ms = []"
    by (simp add: maximos_def filter_empty_conv)
next
  assume vacio: "maximos f ms = []"
  from escoge_invariante [of MenosInf "[]" f ms]
  obtain v where e: "escoge f MenosInf [] ms = (v, filter (\<lambda>p. f p = v) ms)"
    and nn: "v \<noteq> NaN" and bound: "\<forall>p \<in> set ms. \<not> mayor (f p) v"
    and im: "v = MenosInf \<or> v \<in> f ` set ms"
    by auto
  from e vacio have fv: "filter (\<lambda>p. f p = v) ms = []"
    using escoge_maximos [of f ms] by simp
  then have no: "\<forall>p \<in> set ms. f p \<noteq> v"
    by (simp add: filter_empty_conv)
  with im have v: "v = MenosInf" by auto
  show "\<forall>m \<in> set ms. f m = NaN"
  proof
    fix m assume m: "m \<in> set ms"
    show "f m = NaN"
    proof (rule ccontr)
      assume "f m \<noteq> NaN"
      moreover have "\<not> mayor (f m) MenosInf" using bound m v by blast
      ultimately have "f m = MenosInf"
        by (cases "f m") simp_all
      with no m v show False by blast
    qed
  qed
qed

lemma decide_accion_explora:
  assumes "menor_igual (Finito u) (tasa_exploracion j)" and "ms \<noteq> []"
  shows "decide_accion j u g ms h a token = (Inr (ms ! (g mod length ms)), h)"
  using assms by (simp add: decide_accion_def np_random_choice_def)

lemma decide_accion_explota:
  assumes "\<not> menor_igual (Finito u) (tasa_exploracion j)"
    and "a < length h" and "forma_ok (h ! a)" and "movimientos_en_tablero ms"
  shows "decide_accion j u g ms h a token =
           (if maximos (valor_de (experiencia_estado_valor j) (h ! a)) ms = [] then Inl ValueError
            else Inr (maximos (valor_de (experiencia_estado_valor j) (h ! a)) ms
                   ! (g mod length (maximos (valor_de (experiencia_estado_valor j) (h ! a)) ms))),
            h @ map (sucesor (h ! a)) ms)"
proof -
  let ?f = "valor_de (experiencia_estado_valor j) (h ! a)"
  obtain v where e: "escoge ?f MenosInf [] ms = (v, maximos ?f ms)"
    using escoge_maximos [of ?f ms] by (cases "escoge ?f MenosInf [] ms") simp
  show ?thesis
    using assms(1) by (simp add: decide_accion_def evalua_ok [OF assms(2-4)] e np_random_choice_def)
qed

lemma peon_en_tablero:
  "en_tablero origen \<Longrightarrow> m \<in> set (movimientos_peon b origen jugador) \<Longrightarrow>
     fst m = origen \<and> en_tablero (snd m)"
  by (auto simp: movimientos_peon_def Let_def en_tablero_def split: if_splits)

lemma torre_en_tablero:
  "m \<in> set (movimientos_torre b origen jugador) \<Longrightarrow> fst m = origen \<and> en_tablero (snd m)"
  unfolding torre_iff by auto

lemma rey_en_tablero:
  "m \<in> set (movimientos_rey b origen jugador) \<Longrightarrow> fst m = origen \<and> en_tablero (snd m)"
  by (auto simp: movimientos_rey_def Let_def en_tablero_def split: if_splits)

lemma movimientos_validos_en_tablero:
  "movimientos_en_tablero (calcular_movimientos_validos b jugador)"
proof -
  have "en_tablero (fst m) \<and> en_tablero (snd m)"
    if "m \<in> set (calcular_movimientos_validos b jugador)" for m
  proof -
    from that obtain origen where o: "origen \<in> set casillas"
      and m: "m \<in> set (movimientos_peon b origen jugador)
            \<or> m \<in> set (movimientos_torre b origen jugador)
            \<or> m \<in> set (movimientos_rey b origen jugador)"
      by (auto simp: calcular_movimientos_validos_def Let_def split: if_splits)
    from o have "en_tablero origen" by (simp add: en_casillas)
    with m show ?thesis
      using peon_en_tablero torre_en_tablero rey_en_tablero by metis
  qed
  then show ?thesis
    unfolding movimientos_en_tablero_def list_all_iff by blast
qed

text \<open>
  C10, as amended. For a non-empty list of moves on the board (the lists
  \<open>__calcular_movimientos_validos\<close> produces are such lists) and a board of the shape
  (4, 4), \<open>decide_accion\<close> returns an element of the list whenever it explores or the
  value looked up for at least one move is not NaN: the index of the exploration branch
  is below the length of the list, and the loop of the exploitation branch ends with a
  list of best moves, taken from the list, that is empty only when every value looked up
  is NaN (a value that is not NaN exceeds or equals the initial \<open>-inf\<close>), so the index
  into it is in range too. When it exploits and every value looked up is NaN, the list of
  best moves is empty and the call raises ValueError.
\<close>

theorem decide_accion_en_lista:
  assumes "movimientos_validos \<noteq> []" and "a < length h" and "forma_ok (h ! a)"
    and "movimientos_en_tablero movimientos_validos"
  shows "(menor_igual (Finito u) (tasa_exploracion j)
            \<or> (\<exists>m \<in> set movimientos_validos.
                  valor_de (experiencia_estado_valor j) (h ! a) m \<noteq> NaN) \<longrightarrow>
            (\<exists>m. fst (decide_accion j u g movimientos_validos h a token) = Inr m
                 \<and> m \<in> set movimientos_validos))
       \<and> (\<not> menor_igual (Finito u) (tasa_exploracion j)
            \<and> (\<forall>m \<in> set movimientos_validos.
                  valor_de (experiencia_estado_valor j) (h ! a) m = NaN) \<longrightarrow>
            fst (decide_accion j u g movimientos_validos h a token) = Inl ValueError)
       \<and> (\<exists>k. np_random_choice g (length movimientos_validos) = Inr k
              \<and> k < length movimientos_validos)
       \<and> (\<exists>valor_max mejores h'.
             evalua (experiencia_estado_valor j) h a MenosInf [] movimientos_validos
               = (Inr (valor_max, mejores), h')
             \<and> set mejores \<subseteq> set movimientos_validos
             \<and> (mejores = [] \<longleftrightarrow>
                  (\<forall>m \<in> set movimientos_validos.
                     valor_de (experiencia_estado_valor j) (h ! a) m = NaN))
             \<and> (mejores = []
                  \<or> (\<exists>k. np_random_choice g (length mejores) = Inr k \<and> k < length mejores)))"
proof -
  let ?f = "valor_de (experiencia_estado_valor j) (h ! a)"
  let ?mx = "maximos ?f movimientos_validos"
  have sub: "set ?mx \<subseteq> set movimientos_validos" by (simp add: maximos_def)
  have 1: "\<exists>m. fst (decide_accion j u g movimientos_validos h a token) = Inr m
              \<and> m \<in> set movimientos_validos"
    if c: "menor_igual (Finito u) (tasa_exploracion j)
            \<or> (\<exists>m \<in> set movimientos_validos. ?f m \<noteq> NaN)"
  proof (cases "menor_igual (Finito u) (tasa_exploracion j)")
    case True
    then show ?thesis
      using assms(1) by (simp add: decide_accion_explora)
  next
    case False
    with c have "?mx \<noteq> []" by (simp add: maximos_vacio)
    then have "fst (decide_accion j u g movimientos_validos h a token)
                 = Inr (?mx ! (g mod length ?mx))"
      and "?mx ! (g mod length ?mx) \<in> set ?mx"
      using False assms by (simp_all add: decide_accion_explota)
    then show ?thesis using sub by blast
  qed
  have 2: "fst (decide_accion j u g movimientos_validos h a token) = Inl ValueError"
    if "\<not> menor_igual (Finito u) (tasa_exploracion j)
            \<and> (\<forall>m \<in> set movimientos_validos. ?f m = NaN)"
  proof -
    from that have "?mx = []" by (simp add: maximos_vacio)
    with that show ?thesis
      using assms by (simp add: decide_accion_explota)
  qed
  have 3: "\<exists>k. np_random_choice g (length movimientos_validos) = Inr k
              \<and> k < length movimientos_validos"
    using assms(1) by (simp add: np_random_choice_def)
  obtain v where e: "escoge ?f MenosInf [] movimientos_validos = (v, ?mx)"
    using escoge_maximos [of ?f movimientos_validos]
    by (cases "escoge ?f MenosInf [] movimientos_validos") simp
  have 4: "\<exists>valor_max mejores h'.
             evalua (experiencia_estado_valor j) h a MenosInf [] movimientos_validos
               = (Inr (valor_max, mejores), h')
             \<and> set mejores \<subseteq> set movimientos_validos
             \<and> (mejores = [] \<longleftrightarrow> (\<forall>m \<in> set movimientos_validos. ?f m = NaN))
             \<and> (mejores = []
                  \<or> (\<exists>k. np_random_choice g (length mejores) = Inr k \<and> k < length mejores))"
    using sub maximos_vacio [of ?f movimientos_validos]
    by (simp add: evalua_ok [OF assms(2-4)] e np_random_choice_def)
  from 1 2 3 4 show ?thesis by blast
qed

lemma movs_inicio_lista:
  "movs_inicio = [((0, 1), (0, 2)), ((0, 1), (1, 1)), ((0, 1), (1, 2)), ((1, 0), (2, 0))]"
  unfolding movs_inicio_def by code_simp

lemma inicio_hechos:
  shows "movs_inicio \<noteq> []" and "(0::nat) < length memoria_inicio"
    and "forma_ok (memoria_inicio ! 0)" and "movimientos_en_tablero movs_inicio"
proof -
  show "movs_inicio \<noteq> []" by (simp add: movs_inicio_lista)
  show "(0::nat) < length memoria_inicio" by (simp add: memoria_inicio_def)
  show "forma_ok (memoria_inicio ! 0)"
    by (simp add: memoria_inicio_def forma_ok_def inicializar_tablero_def)
  show "movimientos_en_tablero movs_inicio"
    unfolding movs_inicio_def by (rule movimientos_validos_en_tablero)
qed

lemma claves_inicio:
  shows "str_vector (concat (sucesor inicializar_tablero ((0, 1), (0, 2))))
           = ''[ 5.  0.  6.  0.  1.  0.  0.  0.  0.  0.  0. -1.  0.  0. -6. -5.]''"
    and "str_vector (concat (sucesor inicializar_tablero ((0, 1), (1, 1))))
           = ''[ 5.  0.  0.  0.  1.  6.  0.  0.  0.  0.  0. -1.  0.  0. -6. -5.]''"
    and "str_vector (concat (sucesor inicializar_tablero ((0, 1), (1, 2))))
           = ''[ 5.  0.  0.  0.  1.  0.  6.  0.  0.  0.  0. -1.  0.  0. -6. -5.]''"
    and "str_vector (concat (sucesor inicializar_tablero ((1, 0), (2, 0))))
           = ''[ 5.  6.  0.  0.  0.  0.  0.  0.  1.  0.  0. -1.  0.  0. -6. -5.]''"
  by (simp_all add: sucesor_def inicializar_tablero_def
      str_vector_def repr_celda_def str_nat.simps digito_def ajusta_def Let_def)

lemma valores_codicioso:
  shows "valor_de (experiencia_estado_valor jugador_codicioso) inicializar_tablero ((0, 1), (0, 2))
           = Finito 0"
    and "valor_de (experiencia_estado_valor jugador_codicioso) inicializar_tablero ((1, 0), (2, 0))
           = Finito 1"
  by (simp_all add: valor_de_def claves_inicio jugador_codicioso_def get0_def)

lemma valores_nan:
  "\<forall>m \<in> set movs_inicio.
     valor_de (experiencia_estado_valor jugador_nan) (memoria_inicio ! 0) m = NaN"
  by (simp add: movs_inicio_lista memoria_inicio_def valor_de_def claves_inicio
      jugador_nan_def get0_def)

lemma valores_defecto:
  "valor_de (experiencia_estado_valor jugador_maq_defecto) b m = Finito 0"
  by (simp add: valor_de_def jugador_maq_defecto_def nuevo_jugador_maq_def get0_def)

lemma explota_defecto:
  shows "\<not> menor_igual (Finito (1 / 2)) (tasa_exploracion jugador_maq_defecto)"
    and "\<not> menor_igual (Finito (1 / 2)) (tasa_exploracion jugador_nan)"
  by (simp_all add: jugador_nan_def jugador_maq_defecto_def nuevo_jugador_maq_def doble_0_3_def)

theorem decide_accion_en_lista_witness:
  "movs_inicio \<noteq> [] \<and> (0::nat) < length memoria_inicio \<and> forma_ok (memoria_inicio ! 0)
   \<and> movimientos_en_tablero movs_inicio
   \<and> (\<exists>m \<in> set movs_inicio.
         valor_de (experiencia_estado_valor jugador_maq_defecto) (memoria_inicio ! 0) m \<noteq> NaN)
   \<and> (\<exists>m. fst (decide_accion jugador_maq_defecto (1 / 2) 7 movs_inicio memoria_inicio 0 1) = Inr m
          \<and> m \<in> set movs_inicio)"
proof -
  have v: "\<exists>m \<in> set movs_inicio.
         valor_de (experiencia_estado_valor jugador_maq_defecto) (memoria_inicio ! 0) m \<noteq> NaN"
  proof
    show "((1, 0), (2, 0)) \<in> set movs_inicio" by (simp add: movs_inicio_lista)
    show "valor_de (experiencia_estado_valor jugador_maq_defecto) (memoria_inicio ! 0)
            ((1, 0), (2, 0)) \<noteq> NaN"
      by (simp add: valores_defecto)
  qed
  with decide_accion_en_lista [OF inicio_hechos, of "1 / 2" jugador_maq_defecto 7 1]
  have "\<exists>m. fst (decide_accion jugador_maq_defecto (1 / 2) 7 movs_inicio memoria_inicio 0 1) = Inr m
          \<and> m \<in> set movs_inicio"
    by blast
  with v inicio_hechos show ?thesis by blast
qed

text \<open>
  C10 as stated fails where the table holds NaN for the board after each legal move: both
  comparisons of the loop are false for every move, the list of best moves stays empty and
  \<open>np.random.choice(0)\<close> raises ValueError, on the four legal moves of the initial board.
\<close>

theorem decide_accion_en_lista_counterexample:
  "movs_inicio \<noteq> [] \<and> movs_inicio = calcular_movimientos_validos inicializar_tablero 1
   \<and> memoria_inicio ! 0 = inicializar_tablero
   \<and> fst (decide_accion jugador_nan (1 / 2) 0 movs_inicio memoria_inicio 0 1) = Inl ValueError"
proof -
  have "maximos (valor_de (experiencia_estado_valor jugador_nan) (memoria_inicio ! 0)) movs_inicio
          = []"
    using valores_nan by (simp add: maximos_vacio)
  then have "fst (decide_accion jugador_nan (1 / 2) 0 movs_inicio memoria_inicio 0 1)
               = Inl ValueError"
    using decide_accion_explota [OF explota_defecto(2) inicio_hechos(2-4), of 0 1] by simp
  then show ?thesis
    using inicio_hechos(1) by (simp add: movs_inicio_def memoria_inicio_def)
qed

text \<open>
  C3. With the exploration rate 0.0 and the draw \<open>u = 0.0\<close>, which
  \<open>np.random.uniform(0, 1)\<close> can return, the test \<open>0.0 <= 0.0\<close> holds: \<open>decide_accion\<close>
  explores and, on the index 0, returns the king's move to (0, 2), whose successor board
  has the value 0, although the pawn's advance is in the list and its successor board has
  the greater value 1. An epsilon-greedy choice with the rate 0.0 returns a move of
  greatest value.
\<close>

theorem decide_accion_explora_con_tasa_cero:
  "tasa_exploracion jugador_codicioso = Finito 0
   \<and> movs_inicio = calcular_movimientos_validos inicializar_tablero 1
   \<and> memoria_inicio ! 0 = inicializar_tablero
   \<and> fst (decide_accion jugador_codicioso 0 0 movs_inicio memoria_inicio 0 1)
       = Inr ((0, 1), (0, 2))
   \<and> ((1, 0), (2, 0)) \<in> set movs_inicio
   \<and> valor_de (experiencia_estado_valor jugador_codicioso) (memoria_inicio ! 0) ((0, 1), (0, 2))
       = Finito 0
   \<and> valor_de (experiencia_estado_valor jugador_codicioso) (memoria_inicio ! 0) ((1, 0), (2, 0))
       = Finito 1
   \<and> mayor (Finito 1) (Finito 0)"
proof -
  have e: "tasa_exploracion jugador_codicioso = Finito 0"
    by (simp add: jugador_codicioso_def)
  then have "fst (decide_accion jugador_codicioso 0 0 movs_inicio memoria_inicio 0 1)
          = Inr ((0, 1), (0, 2))"
    by (simp add: decide_accion_def np_random_choice_def movs_inicio_lista)
  moreover have "((1, 0), (2, 0)) \<in> set movs_inicio"
    by (simp add: movs_inicio_lista)
  moreover have "memoria_inicio ! 0 = inicializar_tablero"
    by (simp add: memoria_inicio_def)
  ultimately show ?thesis
    using e by (simp add: valores_codicioso movs_inicio_def)
qed

text \<open>
  The two branches for a non-empty list of moves on the board. When the draw \<open>u\<close> is at
  most the exploration rate, the result is the element of the list at the index
  \<open>np.random.choice\<close> draws, and every element is the result for some draw. Otherwise the
  result is the element, at the index drawn, of the list of the moves of greatest value
  (when there is one), and every such move is the result for some draw. With the rate 0.0
  and a draw \<open>u > 0\<close> the result is a move of greatest value; with the rate 1.0 the result
  is always the element of the whole list at the index drawn.
\<close>

lemma decide_accion_ramas:
  assumes "movimientos_validos \<noteq> []" and "a < length h" and "forma_ok (h ! a)"
    and "movimientos_en_tablero movimientos_validos"
  shows "(menor_igual (Finito u) (tasa_exploracion j) \<longrightarrow>
            fst (decide_accion j u g movimientos_validos h a token)
              = Inr (movimientos_validos ! (g mod length movimientos_validos)))
       \<and> (\<not> menor_igual (Finito u) (tasa_exploracion j)
            \<and> maximos (valor_de (experiencia_estado_valor j) (h ! a)) movimientos_validos \<noteq> [] \<longrightarrow>
            fst (decide_accion j u g movimientos_validos h a token)
              = Inr (maximos (valor_de (experiencia_estado_valor j) (h ! a)) movimientos_validos
                      ! (g mod length (maximos (valor_de (experiencia_estado_valor j) (h ! a))
                                         movimientos_validos))))
       \<and> (m \<in> set (maximos (valor_de (experiencia_estado_valor j) (h ! a)) movimientos_validos)
            \<longleftrightarrow> m \<in> set movimientos_validos
                 \<and> valor_de (experiencia_estado_valor j) (h ! a) m \<noteq> NaN
                 \<and> (\<forall>m' \<in> set movimientos_validos.
                       \<not> mayor (valor_de (experiencia_estado_valor j) (h ! a) m')
                                (valor_de (experiencia_estado_valor j) (h ! a) m)))
       \<and> (tasa_exploracion j = Finito 0 \<and> 0 < u
            \<and> (\<exists>m \<in> set movimientos_validos.
                  valor_de (experiencia_estado_valor j) (h ! a) m \<noteq> NaN) \<longrightarrow>
            (\<exists>r. fst (decide_accion j u g movimientos_validos h a token) = Inr r
                 \<and> r \<in> set movimientos_validos
                 \<and> (\<forall>m' \<in> set movimientos_validos.
                       \<not> mayor (valor_de (experiencia_estado_valor j) (h ! a) m')
                                (valor_de (experiencia_estado_valor j) (h ! a) r))))
       \<and> (tasa_exploracion j = Finito 1 \<and> u < 1 \<longrightarrow>
            fst (decide_accion j u g movimientos_validos h a token)
              = Inr (movimientos_validos ! (g mod length movimientos_validos)))
       \<and> (menor_igual (Finito u) (tasa_exploracion j) \<and> i < length movimientos_validos \<longrightarrow>
            fst (decide_accion j u i movimientos_validos h a token) = Inr (movimientos_validos ! i))
       \<and> (\<not> menor_igual (Finito u) (tasa_exploracion j)
            \<and> i < length (maximos (valor_de (experiencia_estado_valor j) (h ! a)) movimientos_validos)
            \<longrightarrow> fst (decide_accion j u i movimientos_validos h a token)
                  = Inr (maximos (valor_de (experiencia_estado_valor j) (h ! a)) movimientos_validos ! i))"
proof -
  let ?f = "valor_de (experiencia_estado_valor j) (h ! a)"
  let ?mx = "maximos ?f movimientos_validos"
  have explora: "fst (decide_accion j u g' movimientos_validos h a token)
                   = Inr (movimientos_validos ! (g' mod length movimientos_validos))"
    if "menor_igual (Finito u) (tasa_exploracion j)" for g'
    using that assms(1) by (simp add: decide_accion_explora)
  have explota: "fst (decide_accion j u g' movimientos_validos h a token)
                   = Inr (?mx ! (g' mod length ?mx))"
    if "\<not> menor_igual (Finito u) (tasa_exploracion j) \<and> ?mx \<noteq> []" for g'
    using that assms by (simp add: decide_accion_explota)
  have codicioso: "\<exists>r. fst (decide_accion j u g movimientos_validos h a token) = Inr r
                 \<and> r \<in> set movimientos_validos
                 \<and> (\<forall>m' \<in> set movimientos_validos. \<not> mayor (?f m') (?f r))"
    if c: "tasa_exploracion j = Finito 0 \<and> 0 < u \<and> (\<exists>m \<in> set movimientos_validos. ?f m \<noteq> NaN)"
  proof -
    from c have "\<not> menor_igual (Finito u) (tasa_exploracion j)" by simp
    moreover from c have nv: "?mx \<noteq> []" by (simp add: maximos_vacio)
    ultimately have "fst (decide_accion j u g movimientos_validos h a token)
                 = Inr (?mx ! (g mod length ?mx))"
      using explota by blast
    moreover have "?mx ! (g mod length ?mx) \<in> set ?mx"
      using nv by simp
    ultimately show ?thesis
      unfolding en_maximos by blast
  qed
  have todo: "fst (decide_accion j u g movimientos_validos h a token)
              = Inr (movimientos_validos ! (g mod length movimientos_validos))"
    if "tasa_exploracion j = Finito 1 \<and> u < 1"
    using that by (intro explora) simp
  have cada: "fst (decide_accion j u i movimientos_validos h a token) = Inr (movimientos_validos ! i)"
    if "menor_igual (Finito u) (tasa_exploracion j) \<and> i < length movimientos_validos"
    using that explora [of i] by simp
  have cada_max: "fst (decide_accion j u i movimientos_validos h a token) = Inr (?mx ! i)"
    if "\<not> menor_igual (Finito u) (tasa_exploracion j) \<and> i < length ?mx"
  proof -
    from that have "?mx \<noteq> []" by auto
    with that explota [of i] show ?thesis by simp
  qed
  show ?thesis
    using explora [of g] explota [of g] en_maximos [of m ?f movimientos_validos]
      codicioso todo cada cada_max
    by blast
qed

theorem decide_accion_no_muta_witness:
  "(0::nat) < length memoria_inicio
   \<and> snd (decide_accion jugador_maq_defecto (1 / 2) 7 movs_inicio memoria_inicio 0 1) ! 0
       = inicializar_tablero"
proof -
  have a: "(0::nat) < length memoria_inicio" and b: "memoria_inicio ! 0 = inicializar_tablero"
    by (simp_all add: memoria_inicio_def)
  from decide_accion_no_muta [of jugador_maq_defecto "1 / 2" 7 movs_inicio memoria_inicio 0 1] a
  have "snd (decide_accion jugador_maq_defecto (1 / 2) 7 movs_inicio memoria_inicio 0 1) ! 0
          = memoria_inicio ! 0"
    by blast
  with a b show ?thesis by simp
qed

end
